theory Spec2Isabelle
  imports Complex_Main "HOL-Library.AList"
begin

section \<open>The host runner's objects\<close>

text \<open>
  The reporter reads a Vitest \<^verbatim>\<open>TestCase\<close>: \<^verbatim>\<open>fullName\<close>, \<^verbatim>\<open>diagnostic()\<close>
  (possibly undefined), \<^verbatim>\<open>result()\<close> and \<^verbatim>\<open>module.moduleId\<close>. The two methods are
  read several times per call and are modelled as fields. A string is the list of its
  code units, taken as 8-bit characters. The native state is kept as a string, so that the \<^verbatim>\<open>default\<close> branch of
  \<^verbatim>\<open>mapStatus\<close> is reachable. A number that is only copied (\<^verbatim>\<open>duration\<close>) is a
  \<open>real\<close>; counters, retry counts, line numbers and timestamps are \<open>nat\<close> (a JavaScript
  number is exact on them below \<open>2 ^ 53\<close>).
\<close>

record TestError =
  error_message :: string
  error_stack :: "string option"

record TestDiagnostic =
  diag_duration :: real
  retryCount :: nat
  diag_flaky :: bool

record TestResult =
  state :: string
  errors :: "TestError list"

record TestCase =
  fullName :: string
  diagnostic :: "TestDiagnostic option"
  result :: TestResult
  moduleId :: string

section \<open>The report document (types/ctrf)\<close>

datatype CtrfTestState = Passed | Failed | Skipped | Pending | Other

text \<open>
  A property of a JavaScript object is absent, present with the value \<^verbatim>\<open>undefined\<close>, or
  present with a value. \<^verbatim>\<open>JSON.stringify\<close> writes only the last kind.
\<close>

datatype 'a jsprop = Absent | Undefined | Val 'a

text \<open>
  \<^verbatim>\<open>CtrfTest\<close>: three required fields and nine optional properties. The property \<^verbatim>\<open>type\<close> is
  the field \<open>testType_field\<close>.
\<close>

record CtrfTest =
  name :: string
  duration :: real
  status :: CtrfTestState
  message :: "string jsprop"
  trace :: "string jsprop"
  line :: "nat jsprop"
  rawStatus :: "string jsprop"
  testType_field :: "string jsprop"
  filePath :: "string jsprop"
  retries :: "nat jsprop"
  flaky :: "bool jsprop"
  suite :: "string jsprop"

record CtrfSummary =
  tests :: nat
  passed :: nat
  failed :: nat
  pending :: nat
  skipped :: nat
  other :: nat
  start :: nat
  stop :: nat

text \<open>
  \<^verbatim>\<open>CtrfEnvironment\<close> is an object whose properties are assigned one at a time: an
  association list from property name to value, in insertion order.
\<close>

type_synonym CtrfEnvironment = "(string \<times> string) list"

text \<open>\<^verbatim>\<open>ctrfReport.results\<close>; the list \<^verbatim>\<open>results.tests\<close> is the field \<open>results_tests\<close>.\<close>

record CtrfReport =
  tool_name :: string
  summary :: CtrfSummary
  results_tests :: "CtrfTest list"
  environment :: "CtrfEnvironment option"

section \<open>The reporter\<close>

text \<open>
  The class \<^verbatim>\<open>GenerateCtrfReport\<close> is in the repository twice, in \<^verbatim>\<open>src/src/generate-report.ts\<close>
  and in \<^verbatim>\<open>src/unnamed/part_000\<close>. The two texts differ in \<^verbatim>\<open>extractFailureDetails\<close> and
  \<^verbatim>\<open>updateCtrfTestResultsFromTestResult\<close>, and the second one has \<^verbatim>\<open>parseStackTrace\<close> and
  \<^verbatim>\<open>extractLineNumber\<close> in addition. A function that differs is modelled once per copy, with
  the suffix \<open>_src\<close> or \<open>_p000\<close>; every other function has the same text in both files and is
  modelled once.
\<close>

record ReporterConfigOptions =
  outputFile :: "string option"
  outputDir :: "string option"
  minimal :: "bool option"
  testType :: "string option"
  appName :: "string option"
  appVersion :: "string option"
  osPlatform :: "string option"
  osRelease :: "string option"
  osVersion :: "string option"
  buildName :: "string option"
  buildNumber :: "string option"
  buildUrl :: "string option"
  repositoryName :: "string option"
  repositoryUrl :: "string option"
  branchName :: "string option"
  testEnvironment :: "string option"

record GenerateCtrfReport =
  ctrfReport :: CtrfReport
  ctrfEnvironment :: CtrfEnvironment
  reporterConfigOptions :: ReporterConfigOptions
  filename :: string

definition reporterName :: string where
  "reporterName = ''vitest-ctrf-json-reporter''"

definition defaultOutputFile :: string where
  "defaultOutputFile = ''ctrf-report.json''"

definition defaultOutputDir :: string where
  "defaultOutputDir = ''ctrf''"

text \<open>The operator \<^verbatim>\<open>??\<close>.\<close>

definition nullish :: "'a option \<Rightarrow> 'a \<Rightarrow> 'a" where
  "nullish v d = (case v of None \<Rightarrow> d | Some x \<Rightarrow> x)"

subsection \<open>mapStatus\<close>

definition mapStatus :: "TestResult \<Rightarrow> CtrfTestState" where
  "mapStatus vitestResult =
     (if state vitestResult = ''passed'' then Passed
      else if state vitestResult = ''failed'' then Failed
      else if state vitestResult = ''skipped'' then Skipped
      else if state vitestResult = ''pending'' then Pending
      else Other)"

definition isTestFailed :: "TestResult \<Rightarrow> bool" where
  "isTestFailed r = (state r = ''failed'')"

subsection \<open>Strings and arrays of the platform\<close>

text \<open>\<^verbatim>\<open>Array.prototype.join\<close> on an array of strings.\<close>

fun join :: "string \<Rightarrow> string list \<Rightarrow> string" where
  "join sep [] = []"
| "join sep [x] = x"
| "join sep (x # y # ys) = x @ sep @ join sep (y # ys)"

text \<open>\<^verbatim>\<open>stackString.split('\n')\<close>: the empty string gives one empty line.\<close>

fun split_newline :: "string \<Rightarrow> string list" where
  "split_newline [] = [[]]"
| "split_newline (c # cs) =
     (if c = CHR 0x0A then [] # split_newline cs
      else (case split_newline cs of
              [] \<Rightarrow> [[c]]
            | l # ls \<Rightarrow> (c # l) # ls))"

text \<open>
  The unary \<^verbatim>\<open>+\<close> on a non-empty string of decimal digits. The model gives the number the
  digits denote; the code gives the nearest double, which is the same number below \<open>2 ^ 53\<close>
  and may differ from there on. No statement below depends on the value of a line number
  that large.
\<close>

definition digit_value :: "char \<Rightarrow> nat" where
  "digit_value c = of_char c - 48"

definition to_number :: "string \<Rightarrow> nat" where
  "to_number ds = foldl (\<lambda>n d. 10 * n + digit_value d) 0 ds"

subsection \<open>Regular expressions, as backtracking matchers\<close>

text \<open>
  A matcher maps a state (the rest of the input and the captures so far) to every state
  it can leave behind, in the order in which the backtracking search of
  \<^verbatim>\<open>RegExp.prototype.exec\<close> tries them: the head of the list is the match \<^verbatim>\<open>exec\<close> returns.
\<close>

type_synonym mstate = "string \<times> (nat \<rightharpoonup> string)"
type_synonym matcher = "mstate \<Rightarrow> mstate list"

text \<open>Canonicalisation under the flag \<^verbatim>\<open>i\<close>, on the ASCII letters that the pattern uses.\<close>

definition canonicalize :: "char \<Rightarrow> char" where
  "canonicalize c =
     (if 97 \<le> (of_char c :: nat) \<and> (of_char c :: nat) \<le> 122
      then char_of ((of_char c :: nat) - 32) else c)"

definition lit :: "string \<Rightarrow> matcher" where
  "lit p st =
     (if length p \<le> length (fst st) \<and>
         map canonicalize (take (length p) (fst st)) = map canonicalize p
      then [(drop (length p) (fst st), snd st)] else [])"

fun greedy_rests :: "(char \<Rightarrow> bool) \<Rightarrow> string \<Rightarrow> string list" where
  "greedy_rests cls [] = [[]]"
| "greedy_rests cls (x # xs) = (if cls x then greedy_rests cls xs else []) @ [x # xs]"

fun lazy_rests :: "(char \<Rightarrow> bool) \<Rightarrow> string \<Rightarrow> string list" where
  "lazy_rests cls [] = [[]]"
| "lazy_rests cls (x # xs) = (x # xs) # (if cls x then lazy_rests cls xs else [])"

text \<open>\<^verbatim>\<open>cls*\<close>, \<^verbatim>\<open>cls+\<close> and \<^verbatim>\<open>cls*?\<close> for a class of single characters.\<close>

definition cls_star :: "(char \<Rightarrow> bool) \<Rightarrow> matcher" where
  "cls_star cls st = map (\<lambda>r. (r, snd st)) (greedy_rests cls (fst st))"

definition cls_plus :: "(char \<Rightarrow> bool) \<Rightarrow> matcher" where
  "cls_plus cls st =
     (case fst st of
        [] \<Rightarrow> []
      | x # xs \<Rightarrow> if cls x then map (\<lambda>r. (r, snd st)) (greedy_rests cls xs) else [])"

definition cls_star_lazy :: "(char \<Rightarrow> bool) \<Rightarrow> matcher" where
  "cls_star_lazy cls st = map (\<lambda>r. (r, snd st)) (lazy_rests cls (fst st))"

text \<open>\<^verbatim>\<open>(?:m)?\<close>: the group first, then without it; an iteration that consumes nothing is rejected.\<close>

definition opt :: "matcher \<Rightarrow> matcher" where
  "opt m st = filter (\<lambda>st'. length (fst st') < length (fst st)) (m st) @ [st]"

definition seq :: "matcher \<Rightarrow> matcher \<Rightarrow> matcher" where
  "seq m1 m2 st = concat (map m2 (m1 st))"

definition seqs :: "matcher list \<Rightarrow> matcher" where
  "seqs ms = foldr seq ms (\<lambda>st. [st])"

text \<open>A capturing group records the text its body consumed.\<close>

definition cap :: "nat \<Rightarrow> matcher \<Rightarrow> matcher" where
  "cap n m st =
     map (\<lambda>st'. (fst st', (snd st')(n \<mapsto> take (length (fst st) - length (fst st')) (fst st))))
       (m st)"

text \<open>\<^verbatim>\<open>$\<close> without the flag \<^verbatim>\<open>m\<close>.\<close>

definition eos :: matcher where
  "eos st = (if fst st = [] then [st] else [])"

text \<open>
  \<^verbatim>\<open>exec\<close> of a pattern that starts with \<^verbatim>\<open>^\<close> (no flag \<^verbatim>\<open>m\<close>, \<^verbatim>\<open>g\<close> or \<^verbatim>\<open>y\<close>): only
  a match at index 0 is possible.
\<close>

definition exec :: "matcher \<Rightarrow> string \<Rightarrow> (nat \<rightharpoonup> string) option" where
  "exec m s = (case m (s, Map.empty) of [] \<Rightarrow> None | st # _ \<Rightarrow> Some (snd st))"

text \<open>The classes \<^verbatim>\<open>\s\<close>, \<^verbatim>\<open>\S\<close>, \<^verbatim>\<open>\d\<close>, \<^verbatim>\<open>.\<close> and \<^verbatim>\<open>[^\\/]\<close> on 8-bit code units.\<close>

definition cls_space :: "char \<Rightarrow> bool" where
  "cls_space c = (c \<in> set [CHR 0x09, CHR 0x0A, CHR 0x0B, CHR 0x0C, CHR 0x0D, CHR 0x20, CHR 0xA0])"

definition cls_nonspace :: "char \<Rightarrow> bool" where
  "cls_nonspace c = (\<not> cls_space c)"

definition cls_digit :: "char \<Rightarrow> bool" where
  "cls_digit c = (c \<in> set ''0123456789'')"

definition cls_dot :: "char \<Rightarrow> bool" where
  "cls_dot c = (c \<noteq> CHR 0x0A \<and> c \<noteq> CHR 0x0D)"

definition cls_not_slash :: "char \<Rightarrow> bool" where
  "cls_not_slash c = (c \<noteq> CHR 0x5C \<and> c \<noteq> CHR ''/'')"

subsection \<open>parseStackTrace (\<^verbatim>\<open>src/unnamed/part_000\<close>)\<close>

text \<open>
  \<^verbatim>\<open>/^\s*at (?:((?:\[object object\])?[^\\/]+(?: \[as \S+\])?) )?\(?(.*?):(\d+)(?::(\d+))?\)?\s*$/i\<close>
\<close>

definition nodeRe :: matcher where
  "nodeRe =
     seqs [cls_star cls_space, lit ''at '',
           opt (seqs [cap 1 (seqs [opt (lit ''[object object]''),
                                   cls_plus cls_not_slash,
                                   opt (seqs [lit '' [as '', cls_plus cls_nonspace, lit '']''])]),
                      lit '' '']),
           opt (lit ''(''),
           cap 2 (cls_star_lazy cls_dot),
           lit '':'',
           cap 3 (cls_plus cls_digit),
           opt (seqs [lit '':'', cap 4 (cls_plus cls_digit)]),
           opt (lit '')''),
           cls_star cls_space,
           eos]"

text \<open>A parsed frame \<^verbatim>\<open>{ file, lineNumber }\<close>; \<^verbatim>\<open>null\<close> is \<open>None\<close>.\<close>

record frame =
  frame_file :: "string option"
  lineNumber :: "nat option"

text \<open>\<^verbatim>\<open>parts[i] || null\<close> and the test \<^verbatim>\<open>parts[i] ?\<close>: an unset or empty capture is falsy.\<close>

definition truthy :: "string option \<Rightarrow> string option" where
  "truthy v = (case v of None \<Rightarrow> None | Some s \<Rightarrow> if s = [] then None else Some s)"

text \<open>The body of the \<^verbatim>\<open>reduce\<close> callback: the frame a line gives, if the pattern matches it.\<close>

definition parse_line :: "string \<Rightarrow> frame option" where
  "parse_line text =
     (case exec nodeRe text of
        None \<Rightarrow> None
      | Some parts \<Rightarrow>
          Some \<lparr>frame_file = truthy (parts 2),
                lineNumber = map_option to_number (truthy (parts 3))\<rparr>)"

definition parseStackTrace :: "string \<Rightarrow> frame list" where
  "parseStackTrace stackString =
     foldl (\<lambda>stack text. case parse_line text of None \<Rightarrow> stack | Some fr \<Rightarrow> stack @ [fr])
       [] (split_newline stackString)"

subsection \<open>Platform primitives\<close>

text \<open>
  Node's \<^verbatim>\<open>path\<close>, \<^verbatim>\<open>fs\<close> and \<^verbatim>\<open>JSON\<close> are parameters of the model; a primitive that can
  throw returns a sum. \<^verbatim>\<open>Date.now()\<close> is an argument of the call that reads it.
\<close>

datatype exn = Exn string

fun String_of :: "exn \<Rightarrow> string" where
  "String_of (Exn s) = s"

record platform =
  path_resolve :: "string \<Rightarrow> exn + string"
  path_join :: "string \<Rightarrow> string \<Rightarrow> string"
  existsSync :: "string \<Rightarrow> bool"
  mkdirSync :: "string \<Rightarrow> exn + unit"
  writeFileSync :: "string \<Rightarrow> string \<Rightarrow> exn + unit"
  JSON_stringify :: "CtrfReport \<Rightarrow> string"

datatype effect =
    MkdirSync string
  | WriteFileSync string string
  | ConsoleLog string
  | ConsoleError string

subsection \<open>extractLineNumber (\<^verbatim>\<open>src/unnamed/part_000\<close>)\<close>

text \<open>
  \<^verbatim>\<open>stackFrames.find(...)\<close>: the callback resolves the frame's file, then the test's file; an
  exception of either leaves \<^verbatim>\<open>find\<close>.
\<close>

fun find_testFrame :: "platform \<Rightarrow> string \<Rightarrow> frame list \<Rightarrow> exn + frame option" where
  "find_testFrame pf testFilePath [] = Inr None"
| "find_testFrame pf testFilePath (fr # frs) =
     (case truthy (frame_file fr) of
        None \<Rightarrow> find_testFrame pf testFilePath frs
      | Some f \<Rightarrow>
          (case path_resolve pf f of
             Inl e \<Rightarrow> Inl e
           | Inr normalizedFrameFile \<Rightarrow>
               (case path_resolve pf testFilePath of
                  Inl e \<Rightarrow> Inl e
                | Inr normalizedTestFile \<Rightarrow>
                    if normalizedFrameFile = normalizedTestFile then Inr (Some fr)
                    else find_testFrame pf testFilePath frs)))"

definition extractLineNumber :: "platform \<Rightarrow> string \<Rightarrow> string \<Rightarrow> nat option" where
  "extractLineNumber pf trace_text testFilePath =
     (case find_testFrame pf testFilePath (parseStackTrace trace_text) of
        Inl e \<Rightarrow> None
      | Inr None \<Rightarrow> None
      | Inr (Some testFrame) \<Rightarrow> lineNumber testFrame)"

subsection \<open>extractFailureDetails\<close>

text \<open>The \<^verbatim>\<open>Partial<CtrfTest>\<close> that extraction returns: a field never assigned reads \<^verbatim>\<open>undefined\<close>.\<close>

record FailureDetails =
  fd_message :: "string option"
  fd_trace :: "string option"
  fd_line :: "nat option"

definition no_details :: FailureDetails where
  "no_details = \<lparr>fd_message = None, fd_trace = None, fd_line = None\<rparr>"

text \<open>\<^verbatim>\<open>errors.map((error) => error.stack).filter(Boolean)\<close>\<close>

definition truthy_stacks :: "TestError list \<Rightarrow> string list" where
  "truthy_stacks es = List.map_filter (\<lambda>e. truthy (error_stack e)) es"

text \<open>\<^verbatim>\<open>src/src/generate-report.ts\<close>\<close>

definition extractFailureDetails_src :: "TestCase \<Rightarrow> FailureDetails" where
  "extractFailureDetails_src testCase =
     (let testResult = result testCase in
      if isTestFailed testResult then
        no_details
          \<lparr>fd_message := Some (join [CHR 0x0A] (map error_message (errors testResult))),
           fd_trace := Some (join [CHR 0x0A, CHR 0x0A] (truthy_stacks (errors testResult)))\<rparr>
      else no_details)"

text \<open>\<^verbatim>\<open>src/unnamed/part_000\<close>\<close>

definition extractFailureDetails_p000 :: "platform \<Rightarrow> TestCase \<Rightarrow> FailureDetails" where
  "extractFailureDetails_p000 pf testCase =
     (let testResult = result testCase in
      if isTestFailed testResult then
        (let failureDetails = no_details
               \<lparr>fd_message := Some (join [CHR 0x0A] (map error_message (errors testResult)))\<rparr>;
             trace_text = join [CHR 0x0A, CHR 0x0A] (truthy_stacks (errors testResult));
             failureDetails = failureDetails\<lparr>fd_trace := Some trace_text\<rparr>
         in if trace_text \<noteq> [] \<and> moduleId testCase \<noteq> [] then
              (case extractLineNumber pf trace_text (moduleId testCase) of
                 None \<Rightarrow> failureDetails
               | Some lineNo \<Rightarrow> failureDetails\<lparr>fd_line := Some lineNo\<rparr>)
            else failureDetails)
      else no_details)"

subsection \<open>The constructor\<close>

definition endsWith :: "string \<Rightarrow> string \<Rightarrow> bool" where
  "endsWith s suffix =
     (length suffix \<le> length s \<and> drop (length s - length suffix) s = suffix)"

definition setFilename :: "string \<Rightarrow> GenerateCtrfReport \<Rightarrow> GenerateCtrfReport" where
  "setFilename fname this =
     (if endsWith fname ''.json'' then this\<lparr>filename := fname\<rparr>
      else this\<lparr>filename := fname @ ''.json''\<rparr>)"

definition initial_summary :: CtrfSummary where
  "initial_summary =
     \<lparr>tests = 0, passed = 0, failed = 0, pending = 0, skipped = 0, other = 0,
      start = 0, stop = 0\<rparr>"

definition initial_report :: CtrfReport where
  "initial_report =
     \<lparr>tool_name = ''vitest'', summary = initial_summary, results_tests = [],
      environment = None\<rparr>"

text \<open>The resolved options: \<^verbatim>\<open>x ?? undefined\<close> is \<^verbatim>\<open>x\<close>.\<close>

definition resolve_options :: "ReporterConfigOptions \<Rightarrow> ReporterConfigOptions" where
  "resolve_options reporterOptions =
     reporterOptions
       \<lparr>outputFile := Some (nullish (outputFile reporterOptions) defaultOutputFile),
        outputDir := Some (nullish (outputDir reporterOptions) defaultOutputDir),
        minimal := Some (nullish (minimal reporterOptions) False),
        testType := Some (nullish (testType reporterOptions) ''unit'')\<rparr>"

text \<open>
  The constructor: the fields, the file name, then the output directory. A failing
  \<^verbatim>\<open>mkdirSync\<close> is not caught.
\<close>

definition constructor ::
  "platform \<Rightarrow> ReporterConfigOptions \<Rightarrow> exn + (GenerateCtrfReport \<times> effect list)" where
  "constructor pf reporterOptions =
     (let this = \<lparr>ctrfReport = initial_report,
                  ctrfEnvironment = [],
                  reporterConfigOptions = resolve_options reporterOptions,
                  filename = defaultOutputFile\<rparr>;
          this = (case outputFile (reporterConfigOptions this) of
                    None \<Rightarrow> this
                  | Some f \<Rightarrow> setFilename f this);
          dir = nullish (outputDir (reporterConfigOptions this)) defaultOutputDir
      in if \<not> existsSync pf dir then
           (case mkdirSync pf dir of
              Inl e \<Rightarrow> Inl e
            | Inr _ \<Rightarrow> Inr (this, [MkdirSync dir]))
         else Inr (this, []))"

subsection \<open>onTestRunStart\<close>

text \<open>\<^verbatim>\<open>if (options.k !== undefined) this.ctrfEnvironment.k = options.k\<close>\<close>

definition set_if_defined :: "string \<Rightarrow> string option \<Rightarrow> CtrfEnvironment \<Rightarrow> CtrfEnvironment" where
  "set_if_defined k v env = (case v of None \<Rightarrow> env | Some x \<Rightarrow> AList.update k x env)"

definition setEnvironmentDetails ::
  "ReporterConfigOptions \<Rightarrow> GenerateCtrfReport \<Rightarrow> GenerateCtrfReport" where
  "setEnvironmentDetails options this =
     (let env = ctrfEnvironment this;
          env = set_if_defined ''appName'' (appName options) env;
          env = set_if_defined ''appVersion'' (appVersion options) env;
          env = set_if_defined ''osPlatform'' (osPlatform options) env;
          env = set_if_defined ''osRelease'' (osRelease options) env;
          env = set_if_defined ''osVersion'' (osVersion options) env;
          env = set_if_defined ''buildName'' (buildName options) env;
          env = set_if_defined ''buildNumber'' (buildNumber options) env;
          env = set_if_defined ''buildUrl'' (buildUrl options) env;
          env = set_if_defined ''repositoryName'' (repositoryName options) env;
          env = set_if_defined ''repositoryUrl'' (repositoryUrl options) env;
          env = set_if_defined ''branchName'' (branchName options) env;
          env = set_if_defined ''testEnvironment'' (testEnvironment options) env
      in this\<lparr>ctrfEnvironment := env\<rparr>)"

text \<open>
  \<^verbatim>\<open>Object.keys(environment).length > 0\<close>. Run start attaches the object \<^verbatim>\<open>ctrfEnvironment\<close>
  itself to the report; only \<^verbatim>\<open>setEnvironmentDetails\<close> assigns to it, and run start attaches
  it after that call, so the model attaches its value.
\<close>

definition hasEnvironmentDetails :: "CtrfEnvironment \<Rightarrow> bool" where
  "hasEnvironmentDetails env = (length (map fst env) > 0)"

definition onTestRunStart :: "nat \<Rightarrow> GenerateCtrfReport \<Rightarrow> GenerateCtrfReport" where
  "onTestRunStart now this =
     (let this = this\<lparr>ctrfReport :=
                   (ctrfReport this)\<lparr>summary := (summary (ctrfReport this))\<lparr>start := now\<rparr>\<rparr>\<rparr>;
          this = setEnvironmentDetails (reporterConfigOptions this) this
      in if hasEnvironmentDetails (ctrfEnvironment this)
         then this\<lparr>ctrfReport := (ctrfReport this)\<lparr>environment := Some (ctrfEnvironment this)\<rparr>\<rparr>
         else this)"

subsection \<open>onTestCaseResult\<close>

text \<open>An assignment \<^verbatim>\<open>test.k = v\<close> where \<^verbatim>\<open>v\<close> may be \<^verbatim>\<open>undefined\<close>.\<close>

definition assigned :: "'a option \<Rightarrow> 'a jsprop" where
  "assigned v = (case v of None \<Rightarrow> Undefined | Some x \<Rightarrow> Val x)"

definition required_fields :: "TestCase \<Rightarrow> CtrfTest" where
  "required_fields testCase =
     \<lparr>name = fullName testCase,
      duration = nullish (map_option diag_duration (diagnostic testCase)) 0,
      status = mapStatus (result testCase),
      message = Absent, trace = Absent, line = Absent, rawStatus = Absent,
      testType_field = Absent, filePath = Absent, retries = Absent, flaky = Absent,
      suite = Absent\<rparr>"

definition push_test :: "CtrfTest \<Rightarrow> GenerateCtrfReport \<Rightarrow> GenerateCtrfReport" where
  "push_test test this =
     this\<lparr>ctrfReport :=
            (ctrfReport this)\<lparr>results_tests := results_tests (ctrfReport this) @ [test]\<rparr>\<rparr>"

text \<open>\<^verbatim>\<open>src/src/generate-report.ts\<close>\<close>

definition updateCtrfTestResultsFromTestResult_src ::
  "TestCase \<Rightarrow> GenerateCtrfReport \<Rightarrow> GenerateCtrfReport" where
  "updateCtrfTestResultsFromTestResult_src testCase this =
     (let test = required_fields testCase;
          test =
            (if minimal (reporterConfigOptions this) = Some False then
               test\<lparr>message := assigned (fd_message (extractFailureDetails_src testCase)),
                    trace := assigned (fd_trace (extractFailureDetails_src testCase)),
                    rawStatus := Val (state (result testCase)),
                    testType_field := Val (nullish (testType (reporterConfigOptions this)) ''unit''),
                    filePath := Val (moduleId testCase),
                    retries := Val (nullish (map_option retryCount (diagnostic testCase)) 0),
                    flaky := Val (nullish (map_option diag_flaky (diagnostic testCase)) False),
                    suite := Val (fullName testCase)\<rparr>
             else test)
      in push_test test this)"

text \<open>\<^verbatim>\<open>src/unnamed/part_000\<close>\<close>

definition updateCtrfTestResultsFromTestResult_p000 ::
  "platform \<Rightarrow> TestCase \<Rightarrow> GenerateCtrfReport \<Rightarrow> GenerateCtrfReport" where
  "updateCtrfTestResultsFromTestResult_p000 pf testCase this =
     (let test = required_fields testCase;
          test =
            (if minimal (reporterConfigOptions this) = Some False then
               (let failureDetails = extractFailureDetails_p000 pf testCase;
                    test = test\<lparr>message := assigned (fd_message failureDetails),
                                trace := assigned (fd_trace failureDetails)\<rparr>;
                    test = (case fd_line failureDetails of
                              None \<Rightarrow> test
                            | Some l \<Rightarrow> test\<lparr>line := Val l\<rparr>)
                in test\<lparr>rawStatus := Val (state (result testCase)),
                        testType_field := Val (nullish (testType (reporterConfigOptions this)) ''unit''),
                        filePath := Val (moduleId testCase),
                        retries := Val (nullish (map_option retryCount (diagnostic testCase)) 0),
                        flaky := Val (nullish (map_option diag_flaky (diagnostic testCase)) False),
                        suite := Val (fullName testCase)\<rparr>)
             else test)
      in push_test test this)"

text \<open>\<^verbatim>\<open>summary[ctrfStatus]++\<close>\<close>

fun increment :: "CtrfTestState \<Rightarrow> CtrfSummary \<Rightarrow> CtrfSummary" where
  "increment Passed s = s\<lparr>passed := passed s + 1\<rparr>"
| "increment Failed s = s\<lparr>failed := failed s + 1\<rparr>"
| "increment Skipped s = s\<lparr>skipped := skipped s + 1\<rparr>"
| "increment Pending s = s\<lparr>pending := pending s + 1\<rparr>"
| "increment Other s = s\<lparr>other := other s + 1\<rparr>"

definition updateTotalsFromTestResult ::
  "TestCase \<Rightarrow> GenerateCtrfReport \<Rightarrow> GenerateCtrfReport" where
  "updateTotalsFromTestResult testCase this =
     (let ctrfStatus = mapStatus (result testCase);
          s = increment ctrfStatus (summary (ctrfReport this));
          s = s\<lparr>tests := tests s + 1\<rparr>
      in this\<lparr>ctrfReport := (ctrfReport this)\<lparr>summary := s\<rparr>\<rparr>)"

definition onTestCaseResult_src :: "TestCase \<Rightarrow> GenerateCtrfReport \<Rightarrow> GenerateCtrfReport" where
  "onTestCaseResult_src testCase this =
     updateTotalsFromTestResult testCase (updateCtrfTestResultsFromTestResult_src testCase this)"

definition onTestCaseResult_p000 ::
  "platform \<Rightarrow> TestCase \<Rightarrow> GenerateCtrfReport \<Rightarrow> GenerateCtrfReport" where
  "onTestCaseResult_p000 pf testCase this =
     updateTotalsFromTestResult testCase
       (updateCtrfTestResultsFromTestResult_p000 pf testCase this)"

subsection \<open>onTestRunEnd\<close>

text \<open>
  \<^verbatim>\<open>writeReportToFile\<close>: the write and the confirmation are inside \<^verbatim>\<open>try\<close>; the handler
  prints the error. The format \<^verbatim>\<open>%s/%s\<close> is filled with the output directory and the
  file name.
\<close>

definition writeReportToFile :: "platform \<Rightarrow> GenerateCtrfReport \<Rightarrow> CtrfReport \<Rightarrow> effect list" where
  "writeReportToFile pf this data =
     (let file_path = path_join pf
            (nullish (outputDir (reporterConfigOptions this)) defaultOutputDir) (filename this);
          str = JSON_stringify pf data
      in case writeFileSync pf file_path (str @ [CHR 0x0A]) of
           Inr _ \<Rightarrow>
             [WriteFileSync file_path (str @ [CHR 0x0A]),
              ConsoleLog (reporterName @ '': successfully written ctrf json to '' @
                nullish (outputDir (reporterConfigOptions this)) ''undefined'' @ ''/'' @
                filename this)]
         | Inl e \<Rightarrow> [ConsoleError (''Error writing ctrf json report:, '' @ String_of e)])"

definition onTestRunEnd ::
  "platform \<Rightarrow> nat \<Rightarrow> GenerateCtrfReport \<Rightarrow> GenerateCtrfReport \<times> effect list" where
  "onTestRunEnd pf now this =
     (let this = this\<lparr>ctrfReport :=
                   (ctrfReport this)\<lparr>summary := (summary (ctrfReport this))\<lparr>stop := now\<rparr>\<rparr>\<rparr>
      in (this, writeReportToFile pf this (ctrfReport this)))"

subsection \<open>Runs\<close>

text \<open>
  The host drives the reporter through its three lifecycle methods. A run is a list of
  calls, applied in order to a reporter and the effects emitted so far.
\<close>

datatype lifecycle_call =
    OnTestRunStart nat
  | OnTestCaseResult TestCase
  | OnTestRunEnd nat

fun call_src ::
  "platform \<Rightarrow> lifecycle_call \<Rightarrow> GenerateCtrfReport \<times> effect list \<Rightarrow>
   GenerateCtrfReport \<times> effect list" where
  "call_src pf (OnTestRunStart now) (this, out) = (onTestRunStart now this, out)"
| "call_src pf (OnTestCaseResult testCase) (this, out) = (onTestCaseResult_src testCase this, out)"
| "call_src pf (OnTestRunEnd now) (this, out) =
     (fst (onTestRunEnd pf now this), out @ snd (onTestRunEnd pf now this))"

fun call_p000 ::
  "platform \<Rightarrow> lifecycle_call \<Rightarrow> GenerateCtrfReport \<times> effect list \<Rightarrow>
   GenerateCtrfReport \<times> effect list" where
  "call_p000 pf (OnTestRunStart now) (this, out) = (onTestRunStart now this, out)"
| "call_p000 pf (OnTestCaseResult testCase) (this, out) =
     (onTestCaseResult_p000 pf testCase this, out)"
| "call_p000 pf (OnTestRunEnd now) (this, out) =
     (fst (onTestRunEnd pf now this), out @ snd (onTestRunEnd pf now this))"

definition run_src ::
  "platform \<Rightarrow> lifecycle_call list \<Rightarrow> GenerateCtrfReport \<times> effect list \<Rightarrow>
   GenerateCtrfReport \<times> effect list" where
  "run_src pf calls st = fold (call_src pf) calls st"

definition run_p000 ::
  "platform \<Rightarrow> lifecycle_call list \<Rightarrow> GenerateCtrfReport \<times> effect list \<Rightarrow>
   GenerateCtrfReport \<times> effect list" where
  "run_p000 pf calls st = fold (call_p000 pf) calls st"

subsection \<open>Observations used in the statements\<close>

text \<open>The five status counters of a summary.\<close>

definition counters :: "CtrfSummary \<Rightarrow> nat list" where
  "counters s = [passed s, failed s, pending s, skipped s, other s]"

text \<open>The test cases a list of calls completes, in order.\<close>

fun completed :: "lifecycle_call list \<Rightarrow> TestCase list" where
  "completed [] = []"
| "completed (OnTestCaseResult testCase # cs) = testCase # completed cs"
| "completed (OnTestRunStart now # cs) = completed cs"
| "completed (OnTestRunEnd now # cs) = completed cs"

text \<open>The environment options that were supplied, as properties, in the order of the options.\<close>

definition supplied_environment :: "ReporterConfigOptions \<Rightarrow> (string \<times> string) list" where
  "supplied_environment options =
     List.map_filter (\<lambda>kv. map_option (Pair (fst kv)) (snd kv))
       [(''appName'', appName options), (''appVersion'', appVersion options),
        (''osPlatform'', osPlatform options), (''osRelease'', osRelease options),
        (''osVersion'', osVersion options), (''buildName'', buildName options),
        (''buildNumber'', buildNumber options), (''buildUrl'', buildUrl options),
        (''repositoryName'', repositoryName options), (''repositoryUrl'', repositoryUrl options),
        (''branchName'', branchName options), (''testEnvironment'', testEnvironment options)]"

text \<open>A record has only its required fields when each optional property is absent.\<close>

definition only_required :: "CtrfTest \<Rightarrow> bool" where
  "only_required t =
     (message t = Absent \<and> trace t = Absent \<and> line t = Absent \<and> rawStatus t = Absent \<and>
      testType_field t = Absent \<and> filePath t = Absent \<and> retries t = Absent \<and>
      flaky t = Absent \<and> suite t = Absent)"

text \<open>A report document with the property \<^verbatim>\<open>line\<close> removed from each of its records.\<close>

definition without_lines :: "CtrfReport \<Rightarrow> CtrfReport" where
  "without_lines rep = rep\<lparr>results_tests := map (\<lambda>t. t\<lparr>line := Absent\<rparr>) (results_tests rep)\<rparr>"

text \<open>
  A frame is in the test's own file when it has a file and both paths resolve to the same
  absolute path.
\<close>

definition own_file :: "platform \<Rightarrow> string \<Rightarrow> frame \<Rightarrow> bool" where
  "own_file pf testFilePath fr =
     (case truthy (frame_file fr) of
        None \<Rightarrow> False
      | Some f \<Rightarrow>
          (case (path_resolve pf f, path_resolve pf testFilePath) of
             (Inr a, Inr b) \<Rightarrow> a = b
           | _ \<Rightarrow> False))"

text \<open>Path resolution throws neither on the test's file nor on the file of any of the frames.\<close>

definition resolves :: "platform \<Rightarrow> string \<Rightarrow> frame list \<Rightarrow> bool" where
  "resolves pf testFilePath frs =
     (\<not> isl (path_resolve pf testFilePath) \<and>
      list_all (\<lambda>fr. case truthy (frame_file fr) of
                        None \<Rightarrow> True
                      | Some f \<Rightarrow> \<not> isl (path_resolve pf f)) frs)"

text \<open>
  Two properties of a matcher, for a capture index: it leaves the capture as it found it, or
  it leaves it set to a non-empty text.
\<close>

definition keeps :: "nat \<Rightarrow> matcher \<Rightarrow> bool" where
  "keeps n m = (\<forall>st. list_all (\<lambda>st'. snd st' n = snd st n) (m st))"

definition captures :: "nat \<Rightarrow> matcher \<Rightarrow> bool" where
  "captures n m = (\<forall>st. list_all (\<lambda>st'. \<exists>ds. snd st' n = Some ds \<and> ds \<noteq> []) (m st))"

subsection \<open>Concrete inputs\<close>

text \<open>
  A platform on which every path is already absolute and every file-system call succeeds,
  one whose writes fail, and the test cases of the specification's scenarios.
\<close>

definition example_platform :: platform where
  "example_platform =
     \<lparr>path_resolve = Inr,
      path_join = (\<lambda>dir base. dir @ ''/'' @ base),
      existsSync = (\<lambda>dir. False),
      mkdirSync = (\<lambda>dir. Inr ()),
      writeFileSync = (\<lambda>file_path content. Inr ()),
      JSON_stringify = (\<lambda>data. ''{}'')\<rparr>"

definition readonly_platform :: platform where
  "readonly_platform =
     example_platform\<lparr>existsSync := (\<lambda>dir. True),
                      writeFileSync := (\<lambda>file_path content. Inl (Exn ''Error: EACCES''))\<rparr>"

definition default_options :: ReporterConfigOptions where
  "default_options =
     \<lparr>outputFile = None, outputDir = None, minimal = None, testType = None,
      appName = None, appVersion = None, osPlatform = None, osRelease = None,
      osVersion = None, buildName = None, buildNumber = None, buildUrl = None,
      repositoryName = None, repositoryUrl = None, branchName = None,
      testEnvironment = None\<rparr>"

definition default_reporter :: GenerateCtrfReport where
  "default_reporter =
     \<lparr>ctrfReport = initial_report,
      ctrfEnvironment = [],
      reporterConfigOptions =
        default_options\<lparr>outputFile := Some ''ctrf-report.json'', outputDir := Some ''ctrf'',
                         minimal := Some False, testType := Some ''unit''\<rparr>,
      filename = ''ctrf-report.json''\<rparr>"

definition adds_numbers :: TestCase where
  "adds_numbers =
     \<lparr>fullName = ''adds numbers'',
      diagnostic = Some \<lparr>diag_duration = 5, retryCount = 0, diag_flaky = False\<rparr>,
      result = \<lparr>state = ''passed'', errors = []\<rparr>,
      moduleId = ''/t/f.js''\<rparr>"

definition subtracts :: TestCase where
  "subtracts =
     \<lparr>fullName = ''subtracts'',
      diagnostic = None,
      result = \<lparr>state = ''failed'',
                errors = [\<lparr>error_message = ''expected 1 to be 2'', error_stack = None\<rparr>]\<rparr>,
      moduleId = ''/t/f.js''\<rparr>"

definition two_errors :: TestCase where
  "two_errors =
     \<lparr>fullName = ''two errors'',
      diagnostic = None,
      result = \<lparr>state = ''failed'',
                errors = [\<lparr>error_message = ''A'', error_stack = Some ''at x (/t/f.js:10:2)''\<rparr>,
                          \<lparr>error_message = ''B'', error_stack = None\<rparr>]\<rparr>,
      moduleId = ''/t/f.js''\<rparr>"

definition minimal_options :: ReporterConfigOptions where
  "minimal_options = default_options\<lparr>minimal := Some True\<rparr>"

definition minimal_reporter :: GenerateCtrfReport where
  "minimal_reporter =
     default_reporter\<lparr>reporterConfigOptions :=
       (reporterConfigOptions default_reporter)\<lparr>minimal := Some True\<rparr>\<rparr>"

definition environment_options :: ReporterConfigOptions where
  "environment_options = default_options\<lparr>appName := Some ''app'', branchName := Some ''main''\<rparr>"

definition environment_reporter :: GenerateCtrfReport where
  "environment_reporter =
     default_reporter\<lparr>reporterConfigOptions :=
       (reporterConfigOptions default_reporter)
         \<lparr>appName := Some ''app'', branchName := Some ''main''\<rparr>\<rparr>"

definition throwing_platform :: platform where
  "throwing_platform = example_platform\<lparr>path_resolve := (\<lambda>p. Inl (Exn ''TypeError''))\<rparr>"

text \<open>An error has a stack when its \<^verbatim>\<open>stack\<close> is a non-empty string (the test of \<^verbatim>\<open>filter(Boolean)\<close>).\<close>

definition has_stack :: "TestError \<Rightarrow> bool" where
  "has_stack e = (case error_stack e of None \<Rightarrow> False | Some s \<Rightarrow> s \<noteq> [])"


definition erase_lines :: "GenerateCtrfReport \<Rightarrow> GenerateCtrfReport" where
  "erase_lines this = this\<lparr>ctrfReport := without_lines (ctrfReport this)\<rparr>"




section \<open>What each operation leaves unchanged\<close>

lemma push_test_simps [simp]:
  "results_tests (ctrfReport (push_test t this)) = results_tests (ctrfReport this) @ [t]"
  "summary (ctrfReport (push_test t this)) = summary (ctrfReport this)"
  "environment (ctrfReport (push_test t this)) = environment (ctrfReport this)"
  "tool_name (ctrfReport (push_test t this)) = tool_name (ctrfReport this)"
  "reporterConfigOptions (push_test t this) = reporterConfigOptions this"
  "ctrfEnvironment (push_test t this) = ctrfEnvironment this"
  "filename (push_test t this) = filename this"
  by (simp_all add: push_test_def)

lemma updateTotals_simps [simp]:
  "results_tests (ctrfReport (updateTotalsFromTestResult tc this)) = results_tests (ctrfReport this)"
  "environment (ctrfReport (updateTotalsFromTestResult tc this)) = environment (ctrfReport this)"
  "tool_name (ctrfReport (updateTotalsFromTestResult tc this)) = tool_name (ctrfReport this)"
  "reporterConfigOptions (updateTotalsFromTestResult tc this) = reporterConfigOptions this"
  "ctrfEnvironment (updateTotalsFromTestResult tc this) = ctrfEnvironment this"
  "filename (updateTotalsFromTestResult tc this) = filename this"
  "summary (ctrfReport (updateTotalsFromTestResult tc this)) =
     (increment (mapStatus (result tc)) (summary (ctrfReport this)))
       \<lparr>tests := tests (increment (mapStatus (result tc)) (summary (ctrfReport this))) + 1\<rparr>"
  by (simp_all add: updateTotalsFromTestResult_def Let_def)

lemma increment_tests [simp]: "tests (increment st s) = tests s"
  by (cases st) simp_all

lemma increment_start_stop [simp]:
  "start (increment st s) = start s" "stop (increment st s) = stop s"
  by (cases st; simp)+

lemma counters_increment:
  "\<exists>i<5. counters (increment st s) = (counters s)[i := counters s ! i + 1]"
proof (cases st)
  case Passed
  then show ?thesis by (intro exI[of _ 0]) (simp add: counters_def)
next
  case Failed
  then show ?thesis by (intro exI[of _ 1]) (simp add: counters_def)
next
  case Skipped
  then show ?thesis by (intro exI[of _ 3]) (simp add: counters_def)
next
  case Pending
  then show ?thesis by (intro exI[of _ 2]) (simp add: counters_def)
next
  case Other
  then show ?thesis by (intro exI[of _ 4]) (simp add: counters_def)
qed

lemma counters_update [simp]:
  "counters (s\<lparr>tests := n\<rparr>) = counters s"
  "counters (s\<lparr>start := n\<rparr>) = counters s"
  "counters (s\<lparr>stop := n\<rparr>) = counters s"
  by (simp_all add: counters_def)

lemma sum_counters_increment [simp]:
  "sum_list (counters (increment st s)) = sum_list (counters s) + 1"
  by (cases st) (simp_all add: counters_def)

lemma update_src_simps [simp]:
  "summary (ctrfReport (updateCtrfTestResultsFromTestResult_src tc this)) = summary (ctrfReport this)"
  "environment (ctrfReport (updateCtrfTestResultsFromTestResult_src tc this)) =
     environment (ctrfReport this)"
  "tool_name (ctrfReport (updateCtrfTestResultsFromTestResult_src tc this)) =
     tool_name (ctrfReport this)"
  "reporterConfigOptions (updateCtrfTestResultsFromTestResult_src tc this) =
     reporterConfigOptions this"
  "ctrfEnvironment (updateCtrfTestResultsFromTestResult_src tc this) = ctrfEnvironment this"
  "filename (updateCtrfTestResultsFromTestResult_src tc this) = filename this"
  by (simp_all add: updateCtrfTestResultsFromTestResult_src_def Let_def)

lemma update_p000_simps [simp]:
  "summary (ctrfReport (updateCtrfTestResultsFromTestResult_p000 pf tc this)) =
     summary (ctrfReport this)"
  "environment (ctrfReport (updateCtrfTestResultsFromTestResult_p000 pf tc this)) =
     environment (ctrfReport this)"
  "tool_name (ctrfReport (updateCtrfTestResultsFromTestResult_p000 pf tc this)) =
     tool_name (ctrfReport this)"
  "reporterConfigOptions (updateCtrfTestResultsFromTestResult_p000 pf tc this) =
     reporterConfigOptions this"
  "ctrfEnvironment (updateCtrfTestResultsFromTestResult_p000 pf tc this) = ctrfEnvironment this"
  "filename (updateCtrfTestResultsFromTestResult_p000 pf tc this) = filename this"
  by (simp_all add: updateCtrfTestResultsFromTestResult_p000_def Let_def)

lemma update_src_appends:
  "\<exists>t. results_tests (ctrfReport (updateCtrfTestResultsFromTestResult_src tc this)) =
     results_tests (ctrfReport this) @ [t]"
  by (simp add: updateCtrfTestResultsFromTestResult_src_def Let_def)

lemma update_p000_appends:
  "\<exists>t. results_tests (ctrfReport (updateCtrfTestResultsFromTestResult_p000 pf tc this)) =
     results_tests (ctrfReport this) @ [t]"
  by (simp add: updateCtrfTestResultsFromTestResult_p000_def Let_def)

lemma update_length [simp]:
  "length (results_tests (ctrfReport (updateCtrfTestResultsFromTestResult_src tc this))) =
     Suc (length (results_tests (ctrfReport this)))"
  "length (results_tests (ctrfReport (updateCtrfTestResultsFromTestResult_p000 pf tc this))) =
     Suc (length (results_tests (ctrfReport this)))"
  using update_src_appends [of tc this] update_p000_appends [of pf tc this] by auto

lemma onTestRunStart_simps [simp]:
  "results_tests (ctrfReport (onTestRunStart now this)) = results_tests (ctrfReport this)"
  "tests (summary (ctrfReport (onTestRunStart now this))) = tests (summary (ctrfReport this))"
  "counters (summary (ctrfReport (onTestRunStart now this))) = counters (summary (ctrfReport this))"
  "reporterConfigOptions (onTestRunStart now this) = reporterConfigOptions this"
  "filename (onTestRunStart now this) = filename this"
  by (simp_all add: onTestRunStart_def setEnvironmentDetails_def Let_def)

lemma onTestRunEnd_simps [simp]:
  "results_tests (ctrfReport (fst (onTestRunEnd pf now this))) = results_tests (ctrfReport this)"
  "tests (summary (ctrfReport (fst (onTestRunEnd pf now this)))) = tests (summary (ctrfReport this))"
  "counters (summary (ctrfReport (fst (onTestRunEnd pf now this)))) =
     counters (summary (ctrfReport this))"
  "reporterConfigOptions (fst (onTestRunEnd pf now this)) = reporterConfigOptions this"
  "filename (fst (onTestRunEnd pf now this)) = filename this"
  "environment (ctrfReport (fst (onTestRunEnd pf now this))) = environment (ctrfReport this)"
  "ctrfEnvironment (fst (onTestRunEnd pf now this)) = ctrfEnvironment this"
  by (simp_all add: onTestRunEnd_def Let_def)

lemma run_src_Cons: "run_src pf (c # cs) st = run_src pf cs (call_src pf c st)"
  by (simp add: run_src_def)

lemma run_p000_Cons: "run_p000 pf (c # cs) st = run_p000 pf cs (call_p000 pf c st)"
  by (simp add: run_p000_def)

lemma run_src_counts:
  "tests (summary (ctrfReport (fst (run_src pf calls st)))) =
     tests (summary (ctrfReport (fst st))) + length (completed calls) \<and>
   length (results_tests (ctrfReport (fst (run_src pf calls st)))) =
     length (results_tests (ctrfReport (fst st))) + length (completed calls) \<and>
   sum_list (counters (summary (ctrfReport (fst (run_src pf calls st))))) =
     sum_list (counters (summary (ctrfReport (fst st)))) + length (completed calls)"
proof (induction calls arbitrary: st)
  case Nil
  then show ?case by (simp add: run_src_def)
next
  case (Cons c cs)
  obtain this out where st: "st = (this, out)" by (cases st)
  show ?case
    unfolding run_src_Cons using Cons.IH [of "call_src pf c st"]
    by (cases c) (simp_all add: st onTestCaseResult_src_def)
qed

lemma run_p000_counts:
  "tests (summary (ctrfReport (fst (run_p000 pf calls st)))) =
     tests (summary (ctrfReport (fst st))) + length (completed calls) \<and>
   length (results_tests (ctrfReport (fst (run_p000 pf calls st)))) =
     length (results_tests (ctrfReport (fst st))) + length (completed calls) \<and>
   sum_list (counters (summary (ctrfReport (fst (run_p000 pf calls st))))) =
     sum_list (counters (summary (ctrfReport (fst st)))) + length (completed calls)"
proof (induction calls arbitrary: st)
  case Nil
  then show ?case by (simp add: run_p000_def)
next
  case (Cons c cs)
  obtain this out where st: "st = (this, out)" by (cases st)
  show ?case
    unfolding run_p000_Cons using Cons.IH [of "call_p000 pf c st"]
    by (cases c) (simp_all add: st onTestCaseResult_p000_def)
qed

lemma constructor_initial:
  assumes "constructor pf opts = Inr (r0, eff0)"
  shows "ctrfReport r0 = initial_report" "ctrfEnvironment r0 = []"
    "reporterConfigOptions r0 = resolve_options opts"
  using assms
  by (auto simp: constructor_def Let_def setFilename_def resolve_options_def
      split: if_splits sum.splits option.splits)

lemma constructor_default:
  "constructor example_platform default_options = Inr (default_reporter, [MkdirSync ''ctrf''])"
  by (simp add: constructor_def example_platform_def default_options_def default_reporter_def
      resolve_options_def nullish_def defaultOutputFile_def defaultOutputDir_def
      setFilename_def endsWith_def Let_def)

lemma truthy_stacks_filter:
  "truthy_stacks es = map (\<lambda>e. the (error_stack e)) (filter has_stack es)"
  by (induction es)
     (auto simp: truthy_stacks_def List.map_filter_simps truthy_def has_stack_def split: option.splits)

lemma onTestCaseResult_config [simp]:
  "reporterConfigOptions (onTestCaseResult_src tc this) = reporterConfigOptions this"
  "reporterConfigOptions (onTestCaseResult_p000 pf tc this) = reporterConfigOptions this"
  by (simp_all add: onTestCaseResult_src_def onTestCaseResult_p000_def)

lemma call_config [simp]:
  "reporterConfigOptions (fst (call_src pf c st)) = reporterConfigOptions (fst st)"
  "reporterConfigOptions (fst (call_p000 pf c st)) = reporterConfigOptions (fst st)"
  by (cases c; cases st; simp)+

lemma minimal_appends:
  assumes "minimal (reporterConfigOptions this) = Some True"
  shows "results_tests (ctrfReport (onTestCaseResult_src tc this)) =
           results_tests (ctrfReport this) @ [required_fields tc]"
    and "results_tests (ctrfReport (onTestCaseResult_p000 pf tc this)) =
           results_tests (ctrfReport this) @ [required_fields tc]"
  using assms
  by (simp_all add: onTestCaseResult_src_def onTestCaseResult_p000_def
      updateCtrfTestResultsFromTestResult_src_def updateCtrfTestResultsFromTestResult_p000_def)

lemma run_src_minimal:
  "minimal (reporterConfigOptions (fst st)) = Some True \<Longrightarrow>
   results_tests (ctrfReport (fst (run_src pf calls st))) =
     results_tests (ctrfReport (fst st)) @ map required_fields (completed calls)"
proof (induction calls arbitrary: st)
  case Nil
  then show ?case by (simp add: run_src_def)
next
  case (Cons c cs)
  obtain this out where st: "st = (this, out)" by (cases st)
  have "minimal (reporterConfigOptions (fst (call_src pf c st))) = Some True"
    using Cons.prems by simp
  from Cons.IH [OF this] Cons.prems show ?case
    unfolding run_src_Cons by (cases c) (simp_all add: st minimal_appends)
qed

lemma run_p000_minimal:
  "minimal (reporterConfigOptions (fst st)) = Some True \<Longrightarrow>
   results_tests (ctrfReport (fst (run_p000 pf calls st))) =
     results_tests (ctrfReport (fst st)) @ map required_fields (completed calls)"
proof (induction calls arbitrary: st)
  case Nil
  then show ?case by (simp add: run_p000_def)
next
  case (Cons c cs)
  obtain this out where st: "st = (this, out)" by (cases st)
  have "minimal (reporterConfigOptions (fst (call_p000 pf c st))) = Some True"
    using Cons.prems by simp
  from Cons.IH [OF this] Cons.prems show ?case
    unfolding run_p000_Cons by (cases c) (simp_all add: st minimal_appends)
qed

lemma only_required_fields: "only_required (required_fields tc)"
  by (simp add: only_required_def required_fields_def)

lemma constructor_minimal:
  "constructor example_platform minimal_options = Inr (minimal_reporter, [MkdirSync ''ctrf''])"
  by (simp add: constructor_def example_platform_def default_options_def minimal_options_def
      default_reporter_def minimal_reporter_def
      resolve_options_def nullish_def defaultOutputFile_def defaultOutputDir_def
      setFilename_def endsWith_def Let_def)

lemma update_fresh: "k \<notin> fst ` set env \<Longrightarrow> AList.update k v env = env @ [(k, v)]"
  by (induction env) auto

lemma fold_set_if_defined:
  "distinct (map fst kvs) \<Longrightarrow> fst ` set env \<inter> fst ` set kvs = {} \<Longrightarrow>
   fold (\<lambda>kv. set_if_defined (fst kv) (snd kv)) kvs env =
     env @ List.map_filter (\<lambda>kv. map_option (Pair (fst kv)) (snd kv)) kvs"
proof (induction kvs arbitrary: env)
  case Nil
  then show ?case by simp
next
  case (Cons kv kvs)
  obtain k v where kv: "kv = (k, v)" by (cases kv)
  show ?case
  proof (cases v)
    case None
    with Cons kv show ?thesis
      by (simp add: set_if_defined_def)
  next
    case (Some x)
    have fresh: "k \<notin> fst ` set env" using Cons.prems kv by auto
    have disj: "fst ` set (env @ [(k, x)]) \<inter> fst ` set kvs = {}"
      using Cons.prems kv by auto
    have dist: "distinct (map fst kvs)" using Cons.prems by simp
    show ?thesis
      using Cons.IH [OF dist disj] kv Some
      by (simp add: set_if_defined_def update_fresh [OF fresh])
  qed
qed

lemma setEnvironmentDetails_fresh:
  assumes "ctrfEnvironment this = []"
  shows "setEnvironmentDetails options this = this\<lparr>ctrfEnvironment := supplied_environment options\<rparr>"
proof -
  let ?kvs = "[(''appName'', appName options), (''appVersion'', appVersion options),
        (''osPlatform'', osPlatform options), (''osRelease'', osRelease options),
        (''osVersion'', osVersion options), (''buildName'', buildName options),
        (''buildNumber'', buildNumber options), (''buildUrl'', buildUrl options),
        (''repositoryName'', repositoryName options), (''repositoryUrl'', repositoryUrl options),
        (''branchName'', branchName options), (''testEnvironment'', testEnvironment options)]"
  have d: "distinct (map fst ?kvs)" by simp
  have e: "fst ` set ([] :: (string \<times> string) list) \<inter> fst ` set ?kvs = {}" by simp
  have "fold (\<lambda>kv. set_if_defined (fst kv) (snd kv)) ?kvs [] = supplied_environment options"
    using fold_set_if_defined [OF d e] unfolding supplied_environment_def
    by (simp only: append_Nil)
  then show ?thesis
    using assms by (simp add: setEnvironmentDetails_def Let_def)
qed

lemma map_filter_empty:
  "List.map_filter f xs = [] \<longleftrightarrow> list_all (\<lambda>x. f x = None) xs"
  by (induction xs) (auto split: option.splits)

lemma supplied_empty:
  "supplied_environment options = [] \<longleftrightarrow>
     appName options = None \<and> appVersion options = None \<and> osPlatform options = None \<and>
     osRelease options = None \<and> osVersion options = None \<and> buildName options = None \<and>
     buildNumber options = None \<and> buildUrl options = None \<and> repositoryName options = None \<and>
     repositoryUrl options = None \<and> branchName options = None \<and>
     testEnvironment options = None"
  unfolding supplied_environment_def map_filter_empty by simp

lemma map_of_map_filter:
  "distinct (map fst kvs) \<Longrightarrow>
   map_of (List.map_filter (\<lambda>kv. map_option (Pair (fst kv)) (snd kv)) kvs) k =
     (case map_of kvs k of None \<Rightarrow> None | Some v \<Rightarrow> v)"
proof (induction kvs)
  case Nil
  then show ?case by simp
next
  case (Cons kv kvs)
  obtain a v where kv: "kv = (a, v)" by (cases kv)
  have "a \<notin> fst ` set kvs" using Cons.prems kv by auto
  then have none: "map_of kvs a = None" by (simp add: map_of_eq_None_iff)
  show ?case
    using Cons kv none by (cases v) auto
qed

lemma keys_map_filter:
  "fst ` set (List.map_filter (\<lambda>kv. map_option (Pair (fst kv)) (snd kv)) kvs) \<subseteq> fst ` set kvs"
  by (induction kvs) (auto split: option.splits)

lemma distinct_keys_map_filter:
  "distinct (map fst kvs) \<Longrightarrow>
   distinct (map fst (List.map_filter (\<lambda>kv. map_option (Pair (fst kv)) (snd kv)) kvs))"
proof (induction kvs)
  case Nil
  then show ?case by simp
next
  case (Cons kv kvs)
  then show ?case
    using keys_map_filter [of kvs]
    by (cases "snd kv") auto
qed

lemma supplied_distinct: "distinct (map fst (supplied_environment options))"
  unfolding supplied_environment_def by (rule distinct_keys_map_filter) simp

lemma supplied_lookup:
  "map_of (supplied_environment options) =
     (\<lambda>k. if k = ''appName'' then appName options
          else if k = ''appVersion'' then appVersion options
          else if k = ''osPlatform'' then osPlatform options
          else if k = ''osRelease'' then osRelease options
          else if k = ''osVersion'' then osVersion options
          else if k = ''buildName'' then buildName options
          else if k = ''buildNumber'' then buildNumber options
          else if k = ''buildUrl'' then buildUrl options
          else if k = ''repositoryName'' then repositoryName options
          else if k = ''repositoryUrl'' then repositoryUrl options
          else if k = ''branchName'' then branchName options
          else if k = ''testEnvironment'' then testEnvironment options
          else None)"
proof
  fix k
  let ?kvs = "[(''appName'', appName options), (''appVersion'', appVersion options),
        (''osPlatform'', osPlatform options), (''osRelease'', osRelease options),
        (''osVersion'', osVersion options), (''buildName'', buildName options),
        (''buildNumber'', buildNumber options), (''buildUrl'', buildUrl options),
        (''repositoryName'', repositoryName options), (''repositoryUrl'', repositoryUrl options),
        (''branchName'', branchName options), (''testEnvironment'', testEnvironment options)]"
  have d: "distinct (map fst ?kvs)" by simp
  show "map_of (supplied_environment options) k =
     (if k = ''appName'' then appName options
          else if k = ''appVersion'' then appVersion options
          else if k = ''osPlatform'' then osPlatform options
          else if k = ''osRelease'' then osRelease options
          else if k = ''osVersion'' then osVersion options
          else if k = ''buildName'' then buildName options
          else if k = ''buildNumber'' then buildNumber options
          else if k = ''buildUrl'' then buildUrl options
          else if k = ''repositoryName'' then repositoryName options
          else if k = ''repositoryUrl'' then repositoryUrl options
          else if k = ''branchName'' then branchName options
          else if k = ''testEnvironment'' then testEnvironment options
          else None)"
    unfolding supplied_environment_def map_of_map_filter [OF d]
    by simp
qed

lemma resolve_options_env [simp]:
  "supplied_environment (resolve_options options) = supplied_environment options"
  unfolding supplied_environment_def resolve_options_def by (simp del: List.map_filter_simps)

lemma constructor_environment:
  "constructor example_platform environment_options =
     Inr (environment_reporter, [MkdirSync ''ctrf''])"
  by (simp add: constructor_def example_platform_def default_options_def environment_options_def
      default_reporter_def environment_reporter_def
      resolve_options_def nullish_def defaultOutputFile_def defaultOutputDir_def
      setFilename_def endsWith_def Let_def)

lemma run_Nil [simp]: "run_src pf [] st = st" "run_p000 pf [] st = st"
  by (simp_all add: run_src_def run_p000_def)








lemma extract_p000_src:
  "fd_message (extractFailureDetails_p000 pf tc) = fd_message (extractFailureDetails_src tc)"
  "fd_trace (extractFailureDetails_p000 pf tc) = fd_trace (extractFailureDetails_src tc)"
  "fd_line (extractFailureDetails_src tc) = None"
  by (simp_all add: extractFailureDetails_p000_def extractFailureDetails_src_def Let_def
      no_details_def split: option.splits)

lemma erase_lines_case:
  "erase_lines (onTestCaseResult_p000 pf tc this) = onTestCaseResult_src tc (erase_lines this)"
  by (simp add: erase_lines_def without_lines_def onTestCaseResult_p000_def
      onTestCaseResult_src_def updateTotalsFromTestResult_def
      updateCtrfTestResultsFromTestResult_p000_def updateCtrfTestResultsFromTestResult_src_def
      push_test_def required_fields_def extract_p000_src Let_def split: option.splits)

lemma erase_lines_start:
  "erase_lines (onTestRunStart now this) = onTestRunStart now (erase_lines this)"
  by (simp add: erase_lines_def without_lines_def onTestRunStart_def setEnvironmentDetails_def
      Let_def)

lemma erase_lines_end:
  "erase_lines (fst (onTestRunEnd pf now this)) = fst (onTestRunEnd pf now (erase_lines this))"
  by (simp add: erase_lines_def without_lines_def onTestRunEnd_def Let_def)

lemma erase_lines_run:
  "erase_lines (fst (run_p000 pf calls (this, out))) =
     fst (run_src pf calls (erase_lines this, out'))"
proof (induction calls arbitrary: this out out')
  case Nil
  then show ?case by simp
next
  case (Cons c cs)
  show ?case
  proof (cases c)
    case (OnTestRunStart now)
    then show ?thesis
      unfolding run_src_Cons run_p000_Cons
      using Cons.IH [of "onTestRunStart now this" out out']
      by (simp add: erase_lines_start)
  next
    case (OnTestCaseResult tc)
    then show ?thesis
      unfolding run_src_Cons run_p000_Cons
      using Cons.IH [of "onTestCaseResult_p000 pf tc this" out out']
      by (simp add: erase_lines_case)
  next
    case (OnTestRunEnd now)
    then show ?thesis
      unfolding run_src_Cons run_p000_Cons
      using Cons.IH [of "fst (onTestRunEnd pf now this)" "out @ snd (onTestRunEnd pf now this)"
          "out' @ snd (onTestRunEnd pf now (erase_lines this))"]
      by (simp add: erase_lines_end)
  qed
qed

lemma same_case:
  "fd_line (extractFailureDetails_p000 pf tc) = None \<Longrightarrow>
   onTestCaseResult_p000 pf tc this = onTestCaseResult_src tc this"
  by (simp add: onTestCaseResult_p000_def
      onTestCaseResult_src_def updateTotalsFromTestResult_def
      updateCtrfTestResultsFromTestResult_p000_def updateCtrfTestResultsFromTestResult_src_def
      extract_p000_src Let_def)

lemma same_run:
  "list_all (\<lambda>tc. fd_line (extractFailureDetails_p000 pf tc) = None) (completed calls) \<Longrightarrow>
   run_p000 pf calls st = run_src pf calls st"
proof (induction calls arbitrary: st)
  case Nil
  then show ?case by simp
next
  case (Cons c cs)
  obtain this out where st: "st = (this, out)" by (cases st)
  from Cons show ?case
    unfolding run_src_Cons run_p000_Cons
    by (cases c) (simp_all add: st same_case)
qed

lemma src_no_line:
  "list_all (\<lambda>t. line t = Absent) (results_tests (ctrfReport (fst st))) \<Longrightarrow>
   list_all (\<lambda>t. line t = Absent) (results_tests (ctrfReport (fst (run_src pf calls st))))"
proof (induction calls arbitrary: st)
  case Nil
  then show ?case by simp
next
  case (Cons c cs)
  obtain this out where st: "st = (this, out)" by (cases st)
  have "list_all (\<lambda>t. line t = Absent) (results_tests (ctrfReport (fst (call_src pf c st))))"
    using Cons.prems
    by (cases c)
       (simp_all add: st onTestCaseResult_src_def updateCtrfTestResultsFromTestResult_src_def
         required_fields_def Let_def)
  from Cons.IH [OF this] show ?case
    unfolding run_src_Cons .
qed

lemma keeps_lit: "keeps n (lit p)"
  by (simp add: keeps_def lit_def)

lemma keeps_cls:
  "keeps n (cls_star cls)" "keeps n (cls_plus cls)" "keeps n (cls_star_lazy cls)"
  by (auto simp: keeps_def cls_star_def cls_plus_def cls_star_lazy_def list_all_iff
      split: list.splits)

lemma keeps_eos: "keeps n eos"
  by (simp add: keeps_def eos_def)

lemma keeps_opt: "keeps n m \<Longrightarrow> keeps n (opt m)"
  by (fastforce simp: keeps_def opt_def list_all_iff)

lemma keeps_seq: "keeps n m1 \<Longrightarrow> keeps n m2 \<Longrightarrow> keeps n (seq m1 m2)"
  by (fastforce simp: keeps_def seq_def list_all_iff)

lemma keeps_id: "keeps n (\<lambda>st. [st])"
  by (simp add: keeps_def)

lemma keeps_cap: "k \<noteq> n \<Longrightarrow> keeps n m \<Longrightarrow> keeps n (cap k m)"
  by (auto simp: keeps_def cap_def list_all_iff)

lemma greedy_rests_length: "r \<in> set (greedy_rests cls xs) \<Longrightarrow> length r \<le> length xs"
  by (induction xs) (auto split: if_splits)

lemma captures_cap_plus: "captures n (cap n (cls_plus cls))"
proof -
  have "\<exists>ds. snd st' n = Some ds \<and> ds \<noteq> []" if "st' \<in> set (cap n (cls_plus cls) st)" for st st'
  proof (cases "fst st")
    case Nil
    with that show ?thesis by (simp add: cap_def cls_plus_def)
  next
    case (Cons x xs)
    with that obtain r where r: "r \<in> set (greedy_rests cls xs)"
      and st': "st' = (r, (snd st)(n \<mapsto> take (length (x # xs) - length r) (x # xs)))"
      by (auto simp: cap_def cls_plus_def split: if_splits)
    from greedy_rests_length [OF r] have "length (x # xs) - length r > 0" by simp
    then have "take (length (x # xs) - length r) (x # xs) \<noteq> []"
      by (cases "length (x # xs) - length r") simp_all
    with st' show ?thesis by simp
  qed
  then show ?thesis by (simp add: captures_def list_all_iff)
qed

lemma captures_seq_left: "captures n m1 \<Longrightarrow> keeps n m2 \<Longrightarrow> captures n (seq m1 m2)"
  by (fastforce simp: captures_def keeps_def seq_def list_all_iff)

lemma captures_seq_right: "captures n m2 \<Longrightarrow> captures n (seq m1 m2)"
  by (fastforce simp: captures_def seq_def list_all_iff)

lemma seqs_simps: "seqs [] = (\<lambda>st. [st])" "seqs (m # ms) = seq m (seqs ms)"
  by (simp_all add: seqs_def)

lemma captures_seqs_append: "captures n (seqs ms2) \<Longrightarrow> captures n (seqs (ms1 @ ms2))"
  by (induction ms1) (simp_all add: seqs_simps captures_seq_right)

lemma keeps_seqs: "list_all (keeps n) ms \<Longrightarrow> keeps n (seqs ms)"
  by (induction ms) (simp_all add: seqs_simps keeps_seq keeps_id)

lemma captures_nodeRe: "captures 3 nodeRe"
proof -
  let ?tail = "[opt (seqs [lit '':'', cap 4 (cls_plus cls_digit)]), opt (lit '')''),
                cls_star cls_space, eos]"
  have "keeps 3 (seqs ?tail)"
    by (rule keeps_seqs) (simp add: keeps_opt keeps_seqs keeps_cap keeps_lit keeps_cls keeps_eos)
  then have "captures 3 (seqs (cap 3 (cls_plus cls_digit) # ?tail))"
    unfolding seqs_simps(2) [of "cap 3 (cls_plus cls_digit)"]
    by (rule captures_seq_left [OF captures_cap_plus])
  from captures_seqs_append [OF this,
      of "[cls_star cls_space, lit ''at '',
           opt (seqs [cap 1 (seqs [opt (lit ''[object object]''),
                                   cls_plus cls_not_slash,
                                   opt (seqs [lit '' [as '', cls_plus cls_nonspace, lit '']''])]),
                      lit '' '']),
           opt (lit ''(''),
           cap 2 (cls_star_lazy cls_dot),
           lit '':'']"]
  show ?thesis
    unfolding nodeRe_def by simp
qed

lemma exec_nodeRe_line:
  assumes "exec nodeRe text = Some parts"
  shows "\<exists>ds. parts 3 = Some ds \<and> ds \<noteq> []"
proof -
  from assms obtain st sts where m: "nodeRe (text, Map.empty) = st # sts" and p: "parts = snd st"
    by (auto simp: exec_def split: list.splits)
  have "list_all (\<lambda>st'. \<exists>ds. snd st' 3 = Some ds \<and> ds \<noteq> []) (nodeRe (text, Map.empty))"
    using captures_nodeRe by (simp add: captures_def)
  then show ?thesis
    unfolding m p by simp
qed

lemma parse_line_lineNumber:
  assumes "parse_line text = Some fr"
  shows "lineNumber fr \<noteq> None"
proof -
  from assms obtain parts where e: "exec nodeRe text = Some parts"
    and fr: "fr = \<lparr>frame_file = truthy (parts 2),
                  lineNumber = map_option to_number (truthy (parts 3))\<rparr>"
    by (auto simp: parse_line_def split: option.splits)
  from exec_nodeRe_line [OF e] fr show ?thesis
    by (auto simp: truthy_def)
qed

lemma parseStackTrace_foldl:
  "foldl (\<lambda>stack text. case parse_line text of None \<Rightarrow> stack | Some fr \<Rightarrow> stack @ [fr]) acc ls =
     acc @ List.map_filter parse_line ls"
  by (induction ls arbitrary: acc) (simp_all split: option.splits)

lemma parseStackTrace_map_filter:
  "parseStackTrace trace_text = List.map_filter parse_line (split_newline trace_text)"
  by (simp add: parseStackTrace_def parseStackTrace_foldl)

lemma parseStackTrace_lineNumber:
  "list_all (\<lambda>fr. lineNumber fr \<noteq> None) (parseStackTrace trace_text)"
proof -
  have "list_all (\<lambda>fr. lineNumber fr \<noteq> None) (List.map_filter parse_line ls)" for ls
    by (induction ls) (auto split: option.splits dest: parse_line_lineNumber)
  then show ?thesis by (simp add: parseStackTrace_map_filter)
qed

lemma resolves_simps:
  "resolves pf p [] = (\<not> isl (path_resolve pf p))"
  "resolves pf p (fr # frs) =
     ((case truthy (frame_file fr) of None \<Rightarrow> True | Some f \<Rightarrow> \<not> isl (path_resolve pf f)) \<and>
      resolves pf p frs)"
  by (auto simp: resolves_def)

lemma find_testFrame_spec:
  "(case find_testFrame pf p frs of
      Inl e \<Rightarrow> None
    | Inr None \<Rightarrow> None
    | Inr (Some fr) \<Rightarrow> lineNumber fr) =
   (if resolves pf p (takeWhile (\<lambda>fr. \<not> own_file pf p fr) frs)
    then (case List.find (own_file pf p) frs of None \<Rightarrow> None | Some fr \<Rightarrow> lineNumber fr)
    else None)"
proof (induction frs)
  case Nil
  then show ?case by (simp add: resolves_simps)
next
  case (Cons fr frs)
  show ?case
  proof (cases "truthy (frame_file fr)")
    case None
    then have "\<not> own_file pf p fr" by (simp add: own_file_def)
    with None Cons show ?thesis by (simp add: resolves_simps)
  next
    case (Some f)
    show ?thesis
    proof (cases "path_resolve pf f")
      case (Inl e)
      with Some have "\<not> own_file pf p fr" by (simp add: own_file_def)
      with Some Inl show ?thesis by (simp add: resolves_simps)
    next
      case (Inr a)
      show ?thesis
      proof (cases "path_resolve pf p")
        case (Inl e)
        with Some Inr have "\<not> own_file pf p fr" by (simp add: own_file_def)
        moreover have "\<not> resolves pf p frs'" for frs'
          using Inl by (simp add: resolves_def)
        ultimately show ?thesis using Some Inr Inl by (simp add: resolves_simps)
      next
        case b: (Inr b)
        with Some Inr have "own_file pf p fr = (a = b)" by (simp add: own_file_def)
        with Some Inr b Cons show ?thesis by (simp add: resolves_simps)
      qed
    qed
  qed
qed



lemma fold_config [simp]:
  "reporterConfigOptions (fold onTestCaseResult_src tcs this) = reporterConfigOptions this"
  "reporterConfigOptions (fold (onTestCaseResult_p000 pf) tcs this) = reporterConfigOptions this"
  by (induction tcs arbitrary: this) simp_all










section \<open>Status mapping\<close>

text \<open>
  C2. \<open>mapStatus\<close> is a total function of the native state alone: it returns one of the five
  outcomes, each recognised state gives the outcome of the same name, and every other native
  state gives \<open>Other\<close>. The model has no error branch because the \<^verbatim>\<open>switch\<close> has none.
\<close>

theorem mapStatus_total:
  "mapStatus r \<in> {Passed, Failed, Skipped, Pending, Other} \<and>
   (state r = ''passed'' \<longrightarrow> mapStatus r = Passed) \<and>
   (state r = ''failed'' \<longrightarrow> mapStatus r = Failed) \<and>
   (state r = ''skipped'' \<longrightarrow> mapStatus r = Skipped) \<and>
   (state r = ''pending'' \<longrightarrow> mapStatus r = Pending) \<and>
   (state r \<notin> {''passed'', ''failed'', ''skipped'', ''pending''} \<longrightarrow> mapStatus r = Other) \<and>
   (state r = state r' \<longrightarrow> mapStatus r = mapStatus r')"
  by (simp add: mapStatus_def)

theorem mapStatus_total_witness:
  "mapStatus \<lparr>state = ''todo'', errors = []\<rparr> = Other \<and>
   mapStatus \<lparr>state = ''skipped'', errors = []\<rparr> = Skipped"
  using mapStatus_total [of "\<lparr>state = ''todo'', errors = []\<rparr>"]
    mapStatus_total [of "\<lparr>state = ''skipped'', errors = []\<rparr>"]
  by simp

section \<open>Counting\<close>

text \<open>
  C1. A reporter is constructed and driven by any list of lifecycle calls. Afterwards
  \<^verbatim>\<open>summary.tests\<close>, the length of \<^verbatim>\<open>tests\<close> and the sum of the five status counters all equal
  the number of test-case-completion calls in the list. One completion call appends exactly
  one record, adds one to \<^verbatim>\<open>summary.tests\<close> and adds one to exactly one of the five status
  counters, leaving the other four as they were. Both source copies behave so.
\<close>

theorem every_test_counted_once:
  assumes "constructor pf options = Inr (r0, eff0)"
  shows
    "tests (summary (ctrfReport (fst (run_src pf calls (r0, eff0))))) = length (completed calls) \<and>
     length (results_tests (ctrfReport (fst (run_src pf calls (r0, eff0))))) = length (completed calls) \<and>
     sum_list (counters (summary (ctrfReport (fst (run_src pf calls (r0, eff0)))))) =
       length (completed calls) \<and>
     tests (summary (ctrfReport (fst (run_p000 pf calls (r0, eff0))))) = length (completed calls) \<and>
     length (results_tests (ctrfReport (fst (run_p000 pf calls (r0, eff0))))) =
       length (completed calls) \<and>
     sum_list (counters (summary (ctrfReport (fst (run_p000 pf calls (r0, eff0)))))) =
       length (completed calls) \<and>
     (\<exists>t. results_tests (ctrfReport (onTestCaseResult_src testCase this)) =
            results_tests (ctrfReport this) @ [t]) \<and>
     tests (summary (ctrfReport (onTestCaseResult_src testCase this))) =
       tests (summary (ctrfReport this)) + 1 \<and>
     (\<exists>i<5. counters (summary (ctrfReport (onTestCaseResult_src testCase this))) =
              (counters (summary (ctrfReport this)))
                [i := counters (summary (ctrfReport this)) ! i + 1]) \<and>
     (\<exists>t. results_tests (ctrfReport (onTestCaseResult_p000 pf testCase this)) =
            results_tests (ctrfReport this) @ [t]) \<and>
     tests (summary (ctrfReport (onTestCaseResult_p000 pf testCase this))) =
       tests (summary (ctrfReport this)) + 1 \<and>
     (\<exists>i<5. counters (summary (ctrfReport (onTestCaseResult_p000 pf testCase this))) =
              (counters (summary (ctrfReport this)))
                [i := counters (summary (ctrfReport this)) ! i + 1])"
proof -
  have init: "tests (summary (ctrfReport r0)) = 0" "results_tests (ctrfReport r0) = []"
    "sum_list (counters (summary (ctrfReport r0))) = 0"
    using constructor_initial(1) [OF assms]
    by (simp_all add: initial_report_def initial_summary_def counters_def)
  have src: "tests (summary (ctrfReport (fst (run_src pf calls (r0, eff0))))) = length (completed calls)"
    "length (results_tests (ctrfReport (fst (run_src pf calls (r0, eff0))))) = length (completed calls)"
    "sum_list (counters (summary (ctrfReport (fst (run_src pf calls (r0, eff0)))))) =
       length (completed calls)"
    using run_src_counts [of pf calls "(r0, eff0)"] init by simp_all
  have p000: "tests (summary (ctrfReport (fst (run_p000 pf calls (r0, eff0))))) = length (completed calls)"
    "length (results_tests (ctrfReport (fst (run_p000 pf calls (r0, eff0))))) = length (completed calls)"
    "sum_list (counters (summary (ctrfReport (fst (run_p000 pf calls (r0, eff0)))))) =
       length (completed calls)"
    using run_p000_counts [of pf calls "(r0, eff0)"] init by simp_all
  have a1: "\<exists>t. results_tests (ctrfReport (onTestCaseResult_src testCase this)) =
            results_tests (ctrfReport this) @ [t]"
    using update_src_appends [of testCase this] by (simp add: onTestCaseResult_src_def)
  have a2: "tests (summary (ctrfReport (onTestCaseResult_src testCase this))) =
       tests (summary (ctrfReport this)) + 1"
    by (simp add: onTestCaseResult_src_def)
  have a3: "\<exists>i<5. counters (summary (ctrfReport (onTestCaseResult_src testCase this))) =
              (counters (summary (ctrfReport this)))
                [i := counters (summary (ctrfReport this)) ! i + 1]"
    using counters_increment [of "mapStatus (result testCase)" "summary (ctrfReport this)"]
    by (simp add: onTestCaseResult_src_def)
  have b1: "\<exists>t. results_tests (ctrfReport (onTestCaseResult_p000 pf testCase this)) =
            results_tests (ctrfReport this) @ [t]"
    using update_p000_appends [of pf testCase this] by (simp add: onTestCaseResult_p000_def)
  have b2: "tests (summary (ctrfReport (onTestCaseResult_p000 pf testCase this))) =
       tests (summary (ctrfReport this)) + 1"
    by (simp add: onTestCaseResult_p000_def)
  have b3: "\<exists>i<5. counters (summary (ctrfReport (onTestCaseResult_p000 pf testCase this))) =
              (counters (summary (ctrfReport this)))
                [i := counters (summary (ctrfReport this)) ! i + 1]"
    using counters_increment [of "mapStatus (result testCase)" "summary (ctrfReport this)"]
    by (simp add: onTestCaseResult_p000_def)
  show ?thesis
    using src p000 a1 a2 a3 b1 b2 b3 by blast
qed

theorem every_test_counted_once_witness:
  "constructor example_platform default_options = Inr (default_reporter, [MkdirSync ''ctrf'']) \<and>
   tests (summary (ctrfReport (fst (run_src example_platform
     [OnTestRunStart 5, OnTestCaseResult adds_numbers, OnTestCaseResult subtracts, OnTestRunEnd 9]
     (default_reporter, [MkdirSync ''ctrf''])))))  = 2 \<and>
   length (results_tests (ctrfReport (fst (run_p000 example_platform
     [OnTestRunStart 5, OnTestCaseResult adds_numbers, OnTestCaseResult subtracts, OnTestRunEnd 9]
     (default_reporter, [MkdirSync ''ctrf'']))))) = 2 \<and>
   sum_list (counters (summary (ctrfReport (fst (run_p000 example_platform
     [OnTestRunStart 5, OnTestCaseResult adds_numbers, OnTestCaseResult subtracts, OnTestRunEnd 9]
     (default_reporter, [MkdirSync ''ctrf'']))))))  = 2"
  using every_test_counted_once [OF constructor_default,
      of "[OnTestRunStart 5, OnTestCaseResult adds_numbers, OnTestCaseResult subtracts, OnTestRunEnd 9]"]
    constructor_default
  by simp

section \<open>Records of test cases that did not fail\<close>

text \<open>
  C3 as stated fails: for a test case that did not fail, with minimal mode off, the appended
  record's message and trace are not the empty string.
\<close>

theorem not_failed_message_counterexample:
  "state (result adds_numbers) \<noteq> ''failed'' \<and>
   minimal (reporterConfigOptions default_reporter) = Some False \<and>
   message (last (results_tests (ctrfReport (onTestCaseResult_src adds_numbers default_reporter))))
     \<noteq> Val [] \<and>
   trace (last (results_tests (ctrfReport (onTestCaseResult_src adds_numbers default_reporter))))
     \<noteq> Val [] \<and>
   message (last (results_tests (ctrfReport
       (onTestCaseResult_p000 example_platform adds_numbers default_reporter)))) \<noteq> Val [] \<and>
   trace (last (results_tests (ctrfReport
       (onTestCaseResult_p000 example_platform adds_numbers default_reporter)))) \<noteq> Val []"
  by (simp add: adds_numbers_def default_reporter_def default_options_def onTestCaseResult_src_def
      onTestCaseResult_p000_def updateCtrfTestResultsFromTestResult_src_def
      updateCtrfTestResultsFromTestResult_p000_def extractFailureDetails_src_def
      extractFailureDetails_p000_def isTestFailed_def no_details_def assigned_def Let_def)

text \<open>
  C3, amended. For a test case whose native state is not \<^verbatim>\<open>failed\<close>, with minimal mode off,
  extraction returns an empty object, so the appended record's \<^verbatim>\<open>message\<close> and \<^verbatim>\<open>trace\<close> are
  both assigned \<^verbatim>\<open>undefined\<close>. Both source copies agree.
\<close>

theorem not_failed_message_undefined:
  assumes "state (result testCase) \<noteq> ''failed''"
    and "minimal (reporterConfigOptions this) = Some False"
  shows
    "message (last (results_tests (ctrfReport (onTestCaseResult_src testCase this)))) = Undefined \<and>
     trace (last (results_tests (ctrfReport (onTestCaseResult_src testCase this)))) = Undefined \<and>
     message (last (results_tests (ctrfReport (onTestCaseResult_p000 pf testCase this)))) =
       Undefined \<and>
     trace (last (results_tests (ctrfReport (onTestCaseResult_p000 pf testCase this)))) =
       Undefined"
  using assms
  by (simp add: onTestCaseResult_src_def
      onTestCaseResult_p000_def updateCtrfTestResultsFromTestResult_src_def
      updateCtrfTestResultsFromTestResult_p000_def extractFailureDetails_src_def
      extractFailureDetails_p000_def isTestFailed_def no_details_def assigned_def Let_def)

theorem not_failed_message_undefined_witness:
  "state (result adds_numbers) \<noteq> ''failed'' \<and>
   minimal (reporterConfigOptions default_reporter) = Some False \<and>
   message (last (results_tests (ctrfReport (onTestCaseResult_src adds_numbers default_reporter))))
     = Undefined \<and>
   trace (last (results_tests (ctrfReport
       (onTestCaseResult_p000 example_platform adds_numbers default_reporter)))) = Undefined"
proof -
  have a: "state (result adds_numbers) \<noteq> ''failed''" by (simp add: adds_numbers_def)
  have b: "minimal (reporterConfigOptions default_reporter) = Some False"
    by (simp add: default_reporter_def)
  show ?thesis
    using not_failed_message_undefined [OF a b, of example_platform] a b by simp
qed

section \<open>Failure details\<close>

text \<open>
  C4. For a failed test case, extraction returns as message the messages of all its errors,
  in order, joined by a newline, and as trace the stacks of exactly the errors that have a
  stack, in order, joined by a blank line; an error without a stack (\<^verbatim>\<open>undefined\<close>, or the
  empty text, which \<^verbatim>\<open>filter(Boolean)\<close> drops as well) adds nothing to the trace. Both source
  copies agree. The witness is the case of two errors with messages A and B of which only
  the first has a stack.
\<close>

theorem failure_details:
  assumes "state (result testCase) = ''failed''"
  shows
    "fd_message (extractFailureDetails_src testCase) =
       Some (join [CHR 0x0A] (map error_message (errors (result testCase)))) \<and>
     fd_trace (extractFailureDetails_src testCase) =
       Some (join [CHR 0x0A, CHR 0x0A]
         (map (\<lambda>e. the (error_stack e)) (filter has_stack (errors (result testCase))))) \<and>
     fd_message (extractFailureDetails_p000 pf testCase) =
       Some (join [CHR 0x0A] (map error_message (errors (result testCase)))) \<and>
     fd_trace (extractFailureDetails_p000 pf testCase) =
       Some (join [CHR 0x0A, CHR 0x0A]
         (map (\<lambda>e. the (error_stack e)) (filter has_stack (errors (result testCase)))))"
  using assms
  by (simp add: extractFailureDetails_src_def extractFailureDetails_p000_def isTestFailed_def
      no_details_def Let_def truthy_stacks_filter split: option.splits)

theorem failure_details_witness:
  "state (result two_errors) = ''failed'' \<and>
   fd_message (extractFailureDetails_src two_errors) = Some ''A\<newline>B'' \<and>
   fd_trace (extractFailureDetails_src two_errors) = Some ''at x (/t/f.js:10:2)'' \<and>
   fd_message (extractFailureDetails_p000 example_platform two_errors) = Some ''A\<newline>B'' \<and>
   fd_trace (extractFailureDetails_p000 example_platform two_errors) = Some ''at x (/t/f.js:10:2)''"
proof -
  have failed: "state (result two_errors) = ''failed''"
    by (simp add: two_errors_def)
  show ?thesis
    using failure_details [OF failed, of example_platform] failed
    by (simp add: two_errors_def has_stack_def)
qed

section \<open>Line resolution\<close>

text \<open>
  C5. The parsed frames are the frames of the lines of the trace that the pattern matches,
  in the order of the lines, and each of them has a line number. Line resolution looks at the
  frames in this order. When path resolution throws on no frame before the first one in the
  test's own file (nor on the test's file), the result is the line number of that first
  frame, and no line number when no frame is in the test's own file. When path resolution
  throws before such a frame is found, the exception is caught and the result is no line
  number. The witness has a frame of another file at line 7 and a frame of the test's own
  file at line 42, in both orders: the result is 42.
\<close>

theorem line_resolution:
  "extractLineNumber pf trace_text testFilePath =
     (if resolves pf testFilePath
           (takeWhile (\<lambda>fr. \<not> own_file pf testFilePath fr) (parseStackTrace trace_text))
      then (case List.find (own_file pf testFilePath) (parseStackTrace trace_text) of
              None \<Rightarrow> None
            | Some fr \<Rightarrow> lineNumber fr)
      else None) \<and>
   parseStackTrace trace_text = List.map_filter parse_line (split_newline trace_text) \<and>
   list_all (\<lambda>fr. lineNumber fr \<noteq> None) (parseStackTrace trace_text)"
  using find_testFrame_spec [of pf testFilePath "parseStackTrace trace_text"]
    parseStackTrace_map_filter [of trace_text] parseStackTrace_lineNumber [of trace_text]
  by (simp only: extractLineNumber_def simp_thms)

theorem line_resolution_witness:
  "extractLineNumber example_platform
     ''Error: boom\<newline>    at y (/t/g.js:7:1)\<newline>    at x (/t/f.js:42:2)'' ''/t/f.js'' = Some 42 \<and>
   extractLineNumber example_platform
     ''    at x (/t/f.js:42:2)\<newline>    at y (/t/g.js:7:1)'' ''/t/f.js'' = Some 42 \<and>
   extractLineNumber example_platform
     ''    at x (/t/f.js:42:2)\<newline>    at y (/t/g.js:7:1)'' ''/t/h.js'' = None \<and>
   extractLineNumber throwing_platform
     ''    at x (/t/f.js:42:2)\<newline>    at y (/t/g.js:7:1)'' ''/t/f.js'' = None"
proof -
  have vals:
    "parseStackTrace ''Error: boom\<newline>    at y (/t/g.js:7:1)\<newline>    at x (/t/f.js:42:2)'' =
       [\<lparr>frame_file = Some ''/t/g.js'', lineNumber = Some 7\<rparr>,
        \<lparr>frame_file = Some ''/t/f.js'', lineNumber = Some 42\<rparr>]"
    "parseStackTrace ''    at x (/t/f.js:42:2)\<newline>    at y (/t/g.js:7:1)'' =
       [\<lparr>frame_file = Some ''/t/f.js'', lineNumber = Some 42\<rparr>,
        \<lparr>frame_file = Some ''/t/g.js'', lineNumber = Some 7\<rparr>]"
    by code_simp+
  note r1 = line_resolution [of example_platform
        "''Error: boom\<newline>    at y (/t/g.js:7:1)\<newline>    at x (/t/f.js:42:2)''" "''/t/f.js''",
        THEN conjunct1, unfolded vals]
    and r2 = line_resolution [of example_platform
        "''    at x (/t/f.js:42:2)\<newline>    at y (/t/g.js:7:1)''" "''/t/f.js''",
        THEN conjunct1, unfolded vals]
    and r3 = line_resolution [of example_platform
        "''    at x (/t/f.js:42:2)\<newline>    at y (/t/g.js:7:1)''" "''/t/h.js''",
        THEN conjunct1, unfolded vals]
    and r4 = line_resolution [of throwing_platform
        "''    at x (/t/f.js:42:2)\<newline>    at y (/t/g.js:7:1)''" "''/t/f.js''",
        THEN conjunct1, unfolded vals]
  have "extractLineNumber example_platform
     ''Error: boom\<newline>    at y (/t/g.js:7:1)\<newline>    at x (/t/f.js:42:2)'' ''/t/f.js'' = Some 42"
    unfolding r1
    by (simp add: own_file_def resolves_def truthy_def example_platform_def)
  moreover have "extractLineNumber example_platform
     ''    at x (/t/f.js:42:2)\<newline>    at y (/t/g.js:7:1)'' ''/t/f.js'' = Some 42"
    unfolding r2
    by (simp add: own_file_def resolves_def truthy_def example_platform_def)
  moreover have "extractLineNumber example_platform
     ''    at x (/t/f.js:42:2)\<newline>    at y (/t/g.js:7:1)'' ''/t/h.js'' = None"
    unfolding r3
    by (simp add: own_file_def resolves_def truthy_def example_platform_def)
  moreover have "extractLineNumber throwing_platform
     ''    at x (/t/f.js:42:2)\<newline>    at y (/t/g.js:7:1)'' ''/t/f.js'' = None"
    unfolding r4
    by (simp add: own_file_def resolves_def truthy_def example_platform_def
        throwing_platform_def)
  ultimately show ?thesis by simp
qed

section \<open>The two source copies\<close>

text \<open>
  C6 as stated fails: on a failed test whose stack has a frame in the test's own file, the
  copy in \<^verbatim>\<open>src/unnamed/part_000\<close> sets \<^verbatim>\<open>line\<close> on the record and the copy in
  src/src/generate-report.ts does not, so the two report documents differ.
\<close>

theorem copies_differ_counterexample:
  "constructor example_platform default_options = Inr (default_reporter, [MkdirSync ''ctrf'']) \<and>
   ctrfReport (fst (run_src example_platform
       [OnTestRunStart 5, OnTestCaseResult two_errors, OnTestRunEnd 9]
       (default_reporter, [MkdirSync ''ctrf'']))) \<noteq>
   ctrfReport (fst (run_p000 example_platform
       [OnTestRunStart 5, OnTestCaseResult two_errors, OnTestRunEnd 9]
       (default_reporter, [MkdirSync ''ctrf''])))"
proof -
  have a: "map line (results_tests (ctrfReport (fst (run_src example_platform
       [OnTestRunStart 5, OnTestCaseResult two_errors, OnTestRunEnd 9]
       (default_reporter, [MkdirSync ''ctrf'']))))) = [Absent]"
    by code_simp
  have b: "map line (results_tests (ctrfReport (fst (run_p000 example_platform
       [OnTestRunStart 5, OnTestCaseResult two_errors, OnTestRunEnd 9]
       (default_reporter, [MkdirSync ''ctrf'']))))) = [Val 10]"
    by code_simp
  have "[Absent] \<noteq> [Val (10::nat)]" by simp
  with a b constructor_default show ?thesis by metis
qed

text \<open>
  C6, amended. For the same constructor result and the same list of lifecycle calls, the
  report document of the copy in src/src/generate-report.ts is the report document of the
  copy in \<^verbatim>\<open>src/unnamed/part_000\<close> with the property \<^verbatim>\<open>line\<close> removed from every record: summary,
  environment and all other record fields are equal, and the former never sets \<^verbatim>\<open>line\<close>. When
  line resolution yields no line for any completed test case, the two copies end in the same
  reporter state with the same effects. With minimal mode off, a completion call of the copy
  in \<^verbatim>\<open>src/unnamed/part_000\<close> sets \<^verbatim>\<open>line\<close> on the record it appends to the line that
  extraction resolved.
\<close>

theorem copies_agree_up_to_line:
  assumes "constructor pf options = Inr (r0, eff0)"
  shows
    "ctrfReport (fst (run_src pf calls (r0, eff0))) =
       without_lines (ctrfReport (fst (run_p000 pf calls (r0, eff0)))) \<and>
     list_all (\<lambda>t. line t = Absent) (results_tests (ctrfReport (fst (run_src pf calls (r0, eff0))))) \<and>
     (list_all (\<lambda>tc. fd_line (extractFailureDetails_p000 pf tc) = None) (completed calls) \<longrightarrow>
        run_p000 pf calls (r0, eff0) = run_src pf calls (r0, eff0)) \<and>
     (minimal (reporterConfigOptions this) = Some False \<and>
      fd_line (extractFailureDetails_p000 pf testCase) = Some n \<longrightarrow>
        line (last (results_tests (ctrfReport (onTestCaseResult_p000 pf testCase this)))) = Val n)"
proof -
  have empty: "results_tests (ctrfReport r0) = []"
    using constructor_initial(1) [OF assms] by (simp add: initial_report_def)
  then have r0: "erase_lines r0 = r0"
    by (simp add: erase_lines_def without_lines_def)
  have a: "ctrfReport (fst (run_src pf calls (r0, eff0))) =
       without_lines (ctrfReport (fst (run_p000 pf calls (r0, eff0))))"
  proof -
    have "ctrfReport (erase_lines x) = without_lines (ctrfReport x)" for x
      by (simp add: erase_lines_def)
    from this [of "fst (run_p000 pf calls (r0, eff0))"]
    show ?thesis
      using erase_lines_run [of pf calls r0 eff0 eff0] r0 by simp
  qed
  have b: "list_all (\<lambda>t. line t = Absent)
      (results_tests (ctrfReport (fst (run_src pf calls (r0, eff0)))))"
    by (rule src_no_line) (simp add: empty)
  have c: "line (last (results_tests (ctrfReport (onTestCaseResult_p000 pf testCase this)))) = Val n"
    if "minimal (reporterConfigOptions this) = Some False"
      and "fd_line (extractFailureDetails_p000 pf testCase) = Some n"
    using that
    by (simp add: onTestCaseResult_p000_def updateCtrfTestResultsFromTestResult_p000_def Let_def)
  show ?thesis
    using a b c same_run [of pf calls "(r0, eff0)"] by blast
qed

theorem copies_agree_up_to_line_witness:
  "constructor example_platform default_options = Inr (default_reporter, [MkdirSync ''ctrf'']) \<and>
   ctrfReport (fst (run_src example_platform
       [OnTestRunStart 5, OnTestCaseResult two_errors, OnTestRunEnd 9]
       (default_reporter, [MkdirSync ''ctrf'']))) =
     without_lines (ctrfReport (fst (run_p000 example_platform
       [OnTestRunStart 5, OnTestCaseResult two_errors, OnTestRunEnd 9]
       (default_reporter, [MkdirSync ''ctrf''])))) \<and>
   list_all (\<lambda>tc. fd_line (extractFailureDetails_p000 example_platform tc) = None)
     (completed [OnTestRunStart 5, OnTestCaseResult adds_numbers, OnTestCaseResult subtracts,
        OnTestRunEnd 9]) \<and>
   run_p000 example_platform
       [OnTestRunStart 5, OnTestCaseResult adds_numbers, OnTestCaseResult subtracts, OnTestRunEnd 9]
       (default_reporter, [MkdirSync ''ctrf'']) =
     run_src example_platform
       [OnTestRunStart 5, OnTestCaseResult adds_numbers, OnTestCaseResult subtracts, OnTestRunEnd 9]
       (default_reporter, [MkdirSync ''ctrf'']) \<and>
   minimal (reporterConfigOptions default_reporter) = Some False \<and>
   fd_line (extractFailureDetails_p000 example_platform two_errors) = Some 10 \<and>
   line (last (results_tests (ctrfReport
     (onTestCaseResult_p000 example_platform two_errors default_reporter)))) = Val 10"
proof -
  have m: "minimal (reporterConfigOptions default_reporter) = Some False"
    by (simp add: default_reporter_def)
  have ten: "fd_line (extractFailureDetails_p000 example_platform two_errors) = Some 10"
    by code_simp
  have no_line:
    "list_all (\<lambda>tc. fd_line (extractFailureDetails_p000 example_platform tc) = None)
       (completed [OnTestRunStart 5, OnTestCaseResult adds_numbers, OnTestCaseResult subtracts,
          OnTestRunEnd 9])"
    by (simp add: extractFailureDetails_p000_def adds_numbers_def subtracts_def isTestFailed_def
        no_details_def truthy_stacks_def truthy_def Let_def)
  show ?thesis
    using copies_agree_up_to_line [OF constructor_default,
        of "[OnTestRunStart 5, OnTestCaseResult two_errors, OnTestRunEnd 9]"]
      copies_agree_up_to_line [OF constructor_default,
        of "[OnTestRunStart 5, OnTestCaseResult adds_numbers, OnTestCaseResult subtracts,
             OnTestRunEnd 9]" default_reporter two_errors 10]
      constructor_default no_line m ten
    by blast
qed

section \<open>Minimal mode\<close>

text \<open>
  C7. When the reporter is constructed with the minimal flag enabled, every record that any
  list of lifecycle calls appends has its required fields \<^verbatim>\<open>name\<close>, \<^verbatim>\<open>duration\<close> and \<^verbatim>\<open>status\<close> and
  none of the optional properties \<^verbatim>\<open>message\<close>, \<^verbatim>\<open>trace\<close>, \<^verbatim>\<open>line\<close>, \<^verbatim>\<open>rawStatus\<close>, \<^verbatim>\<open>type\<close>,
  \<^verbatim>\<open>filePath\<close>, \<^verbatim>\<open>retries\<close>, \<^verbatim>\<open>flaky\<close>, \<^verbatim>\<open>suite\<close>, whatever the outcome of the test. Both source
  copies behave so.
\<close>

theorem minimal_mode_only_required:
  assumes "constructor pf options = Inr (r0, eff0)"
    and "minimal options = Some True"
  shows
    "results_tests (ctrfReport (fst (run_src pf calls (r0, eff0)))) =
       map required_fields (completed calls) \<and>
     list_all only_required (results_tests (ctrfReport (fst (run_src pf calls (r0, eff0))))) \<and>
     results_tests (ctrfReport (fst (run_p000 pf calls (r0, eff0)))) =
       map required_fields (completed calls) \<and>
     list_all only_required (results_tests (ctrfReport (fst (run_p000 pf calls (r0, eff0)))))"
proof -
  have cfg: "minimal (reporterConfigOptions (fst (r0, eff0))) = Some True"
    using constructor_initial(3) [OF assms(1)] assms(2)
    by (simp add: resolve_options_def nullish_def)
  have empty: "results_tests (ctrfReport r0) = []"
    using constructor_initial(1) [OF assms(1)] by (simp add: initial_report_def)
  have all: "list_all only_required (map required_fields tcs)" for tcs
    by (induction tcs) (simp_all add: only_required_fields)
  show ?thesis
    using run_src_minimal [OF cfg, of pf calls] run_p000_minimal [OF cfg, of pf calls] empty all
    by simp
qed

theorem minimal_mode_only_required_witness:
  "constructor example_platform minimal_options = Inr (minimal_reporter, [MkdirSync ''ctrf'']) \<and>
   minimal minimal_options = Some True \<and>
   results_tests (ctrfReport (fst (run_p000 example_platform
     [OnTestRunStart 5, OnTestCaseResult adds_numbers, OnTestCaseResult two_errors, OnTestRunEnd 9]
     (minimal_reporter, [MkdirSync ''ctrf''])))) =
     [required_fields adds_numbers, required_fields two_errors] \<and>
   results_tests (ctrfReport (fst (run_src example_platform
     [OnTestRunStart 5, OnTestCaseResult adds_numbers, OnTestCaseResult two_errors, OnTestRunEnd 9]
     (minimal_reporter, [MkdirSync ''ctrf''])))) =
     [required_fields adds_numbers, required_fields two_errors] \<and>
   message (required_fields two_errors) = Absent \<and>
   trace (required_fields two_errors) = Absent \<and>
   line (required_fields two_errors) = Absent"
proof -
  have m: "minimal minimal_options = Some True"
    by (simp add: minimal_options_def)
  show ?thesis
    using minimal_mode_only_required [OF constructor_minimal m,
        of "[OnTestRunStart 5, OnTestCaseResult adds_numbers, OnTestCaseResult two_errors,
             OnTestRunEnd 9]"]
      constructor_minimal m
    by (simp add: required_fields_def)
qed

section \<open>The environment block\<close>

text \<open>
  C8. After the constructor and run start, the report document has an environment block
  exactly when at least one of the twelve environment options was supplied, and the block is
  then the list of the supplied options with their supplied values, in the order of the
  options: its keys are distinct, a supplied option is found under its name with its value,
  and no other key is present.
\<close>

theorem environment_block:
  assumes "constructor pf options = Inr (r0, eff0)"
  shows
    "environment (ctrfReport (onTestRunStart now r0)) =
       (if supplied_environment options = [] then None
        else Some (supplied_environment options)) \<and>
     (environment (ctrfReport (onTestRunStart now r0)) = None \<longleftrightarrow>
        appName options = None \<and> appVersion options = None \<and> osPlatform options = None \<and>
        osRelease options = None \<and> osVersion options = None \<and> buildName options = None \<and>
        buildNumber options = None \<and> buildUrl options = None \<and>
        repositoryName options = None \<and> repositoryUrl options = None \<and>
        branchName options = None \<and> testEnvironment options = None) \<and>
     map_of (supplied_environment options) =
       (\<lambda>k. if k = ''appName'' then appName options
          else if k = ''appVersion'' then appVersion options
          else if k = ''osPlatform'' then osPlatform options
          else if k = ''osRelease'' then osRelease options
          else if k = ''osVersion'' then osVersion options
          else if k = ''buildName'' then buildName options
          else if k = ''buildNumber'' then buildNumber options
          else if k = ''buildUrl'' then buildUrl options
          else if k = ''repositoryName'' then repositoryName options
          else if k = ''repositoryUrl'' then repositoryUrl options
          else if k = ''branchName'' then branchName options
          else if k = ''testEnvironment'' then testEnvironment options
          else None) \<and>
     distinct (map fst (supplied_environment options))"
proof -
  have env0: "ctrfEnvironment r0 = []" and rep0: "environment (ctrfReport r0) = None"
    and cfg: "reporterConfigOptions r0 = resolve_options options"
    using constructor_initial [OF assms] by (simp_all add: initial_report_def)
  have block: "environment (ctrfReport (onTestRunStart now r0)) =
       (if supplied_environment options = [] then None
        else Some (supplied_environment options))"
    using env0 rep0 cfg
    by (simp add: onTestRunStart_def Let_def setEnvironmentDetails_fresh hasEnvironmentDetails_def)
  have none: "environment (ctrfReport (onTestRunStart now r0)) = None \<longleftrightarrow>
      supplied_environment options = []"
    unfolding block by simp
  show ?thesis
    using block none supplied_empty [of options] supplied_lookup [of options]
      supplied_distinct [of options]
    by (simp only: simp_thms)
qed

theorem environment_block_witness:
  "constructor example_platform environment_options =
     Inr (environment_reporter, [MkdirSync ''ctrf'']) \<and>
   environment (ctrfReport (onTestRunStart 5 environment_reporter)) =
     Some [(''appName'', ''app''), (''branchName'', ''main'')] \<and>
   constructor example_platform default_options = Inr (default_reporter, [MkdirSync ''ctrf'']) \<and>
   environment (ctrfReport (onTestRunStart 5 default_reporter)) = None"
  using environment_block [OF constructor_environment, of 5]
    environment_block [OF constructor_default, of 5]
    constructor_environment constructor_default
  by (simp add: supplied_environment_def environment_options_def default_options_def)

section \<open>Writing the report\<close>

text \<open>
  C9. Run end sets \<^verbatim>\<open>summary.stop\<close> and changes nothing else of the reporter, whether the write
  succeeds or not. When \<^verbatim>\<open>writeFileSync\<close> throws, the exception is caught: the only effect is
  one \<^verbatim>\<open>console.error\<close> line carrying the stringified error. When the write succeeds, the
  effects are the write of the serialised report followed by a newline, and one
  \<^verbatim>\<open>console.log\<close> line that names the output directory and the file name.
\<close>

theorem write_failure_is_caught:
  assumes "outputDir (reporterConfigOptions this) = Some dir"
  shows
    "fst (onTestRunEnd pf now this) =
       this\<lparr>ctrfReport := (ctrfReport this)\<lparr>summary := (summary (ctrfReport this))\<lparr>stop := now\<rparr>\<rparr>\<rparr> \<and>
     (\<forall>e. writeFileSync pf (path_join pf dir (filename this))
            (JSON_stringify pf (ctrfReport (fst (onTestRunEnd pf now this))) @ [CHR 0x0A]) = Inl e \<longrightarrow>
          snd (onTestRunEnd pf now this) =
            [ConsoleError (''Error writing ctrf json report:, '' @ String_of e)]) \<and>
     (writeFileSync pf (path_join pf dir (filename this))
        (JSON_stringify pf (ctrfReport (fst (onTestRunEnd pf now this))) @ [CHR 0x0A]) = Inr () \<longrightarrow>
      snd (onTestRunEnd pf now this) =
        [WriteFileSync (path_join pf dir (filename this))
           (JSON_stringify pf (ctrfReport (fst (onTestRunEnd pf now this))) @ [CHR 0x0A]),
         ConsoleLog (''vitest-ctrf-json-reporter: successfully written ctrf json to '' @
           dir @ ''/'' @ filename this)])"
  using assms
  by (simp add: onTestRunEnd_def writeReportToFile_def Let_def nullish_def reporterName_def)

theorem write_failure_is_caught_witness:
  "outputDir (reporterConfigOptions default_reporter) = Some ''ctrf'' \<and>
   snd (onTestRunEnd readonly_platform 9 default_reporter) =
     [ConsoleError ''Error writing ctrf json report:, Error: EACCES''] \<and>
   snd (onTestRunEnd example_platform 9 default_reporter) =
     [WriteFileSync ''ctrf/ctrf-report.json'' ''{}\<newline>'',
      ConsoleLog ''vitest-ctrf-json-reporter: successfully written ctrf json to ctrf/ctrf-report.json'']"
proof -
  have d: "outputDir (reporterConfigOptions default_reporter) = Some ''ctrf''"
    by (simp add: default_reporter_def)
  show ?thesis
    using write_failure_is_caught [OF d, of readonly_platform 9]
      write_failure_is_caught [OF d, of example_platform 9] d
    by (simp add: readonly_platform_def example_platform_def default_reporter_def)
qed

section \<open>A run without run start\<close>



end
